theory Spec2Isabelle
  imports Complex_Main "HOL-Library.Multiset"
begin

section \<open>The Open Library data-access layer (services/openLibrary.ts)\<close>

text \<open>
  The module is asynchronous JavaScript: it awaits \<^verbatim>\<open>fetch\<close>, reads and writes
  \<^verbatim>\<open>sessionStorage\<close>, logs to the console and sleeps. Every multi-step flow in
  it is sequential, so an \<^verbatim>\<open>async\<close> function is modelled as a function from the
  world before the call to a result and the world after it; a rejected promise or a
  \<^verbatim>\<open>throw\<close> is the result \<open>Inl error\<close>. The world keeps its changes when an
  exception is thrown, as the browser does.
\<close>

subsection \<open>Errors\<close>

text \<open>
  \<^verbatim>\<open>class FetchError extends Error\<close> and
  \<^verbatim>\<open>class BookNotFoundError extends FetchError\<close>. The other classes are the ones
  the platform throws: a failed \<^verbatim>\<open>fetch\<close> and a property read on
  \<^verbatim>\<open>undefined\<close> are TypeErrors, unparsable JSON is a SyntaxError.
\<close>

datatype error_class =
  C_Error | C_TypeError | C_SyntaxError | C_FetchError | C_BookNotFoundError

record js_error =
  err_class :: error_class
  err_name :: string
  err_message :: string

fun superclass :: "error_class \<Rightarrow> error_class option" where
  "superclass C_Error = None"
| "superclass C_TypeError = Some C_Error"
| "superclass C_SyntaxError = Some C_Error"
| "superclass C_FetchError = Some C_Error"
| "superclass C_BookNotFoundError = Some C_FetchError"

text \<open>The prototype chain of a class, itself first.\<close>

fun ancestors :: "error_class \<Rightarrow> error_class list" where
  "ancestors C_Error = [C_Error]"
| "ancestors C_TypeError = [C_TypeError, C_Error]"
| "ancestors C_SyntaxError = [C_SyntaxError, C_Error]"
| "ancestors C_FetchError = [C_FetchError, C_Error]"
| "ancestors C_BookNotFoundError = [C_BookNotFoundError, C_FetchError, C_Error]"

definition instanceof :: "js_error \<Rightarrow> error_class \<Rightarrow> bool" where
  "instanceof e c = (c \<in> set (ancestors (err_class e)))"

definition FetchError :: "string \<Rightarrow> js_error" where
  "FetchError message =
     \<lparr>err_class = C_FetchError, err_name = ''FetchError'', err_message = message\<rparr>"

text \<open>
  The constructor calls \<^verbatim>\<open>super(`Book with ID "${workId}" not found.`)\<close> and then
  overwrites \<^verbatim>\<open>this.name\<close>. \<open>CHR 0x22\<close> is the double quote.
\<close>

definition BookNotFoundError :: "string \<Rightarrow> js_error" where
  "BookNotFoundError workId =
     (FetchError (''Book with ID '' @ [CHR 0x22] @ workId @ [CHR 0x22] @ '' not found.''))
       \<lparr>err_class := C_BookNotFoundError, err_name := ''BookNotFoundError''\<rparr>"

definition TypeError :: "string \<Rightarrow> js_error" where
  "TypeError message =
     \<lparr>err_class = C_TypeError, err_name = ''TypeError'', err_message = message\<rparr>"

subsection \<open>Data\<close>

text \<open>
  Modelled from the spec: the interfaces \<^verbatim>\<open>Book\<close> and \<^verbatim>\<open>Author\<close> of
  \<^verbatim>\<open>../types\<close> are not among the source files. The fields are the ones the spec
  lists in its data model and the ones the module reads or writes. A field the module
  tests for presence before using it is optional (\<open>None\<close> is \<^verbatim>\<open>undefined\<close>).
  An \<^verbatim>\<open>external_links\<close> object is an association list in insertion order, as a
  JavaScript object is.
\<close>

datatype bio = BioText string | BioStructured string

record Author =
  name :: string
  bio :: "bio option"
  birth_date :: "string option"
  death_date :: "string option"

record author_key =
  key :: string

record author_ref =
  author :: "author_key option"

record Book =
  book_key :: "string option"
  title :: "string option"
  author_name :: "string list option"
  cover_i :: "int option"
  first_publish_year :: "int option"
  external_links :: "(string \<times> string) list option"
  author_details :: "Author option"
  authors :: "author_ref list option"

text \<open>\<^verbatim>\<open>interface SearchResult { docs: Book[]; numFound: number; }\<close>\<close>

record SearchResult =
  docs :: "Book list"
  numFound :: int

text \<open>
  \<^verbatim>\<open>interface BrowseOptions\<close>: every field is optional. The field \<^verbatim>\<open>sort\<close> is
  named \<open>sort_by\<close> here (\<open>sort\<close> is a list function of HOL). A page number and a
  page size are whole numbers: the option holds an integer, and the code reads it as the
  double nearest to it (\<open>fl\<close> below). Fractions are outside this model.
\<close>

record BrowseOptions =
  query :: "string option"
  genres :: "string list option"
  year :: "string option"
  sort_by :: "string option"
  limit :: "int option"
  page :: "int option"

text \<open>The value \<^verbatim>\<open>browseBooks\<close> resolves to: \<^verbatim>\<open>{ books: Book[], total: number }\<close>.\<close>

record BrowseResult =
  books :: "Book list"
  total :: int

text \<open>
  The editions listing, as far as \<^verbatim>\<open>getBookDetails\<close> reads it
  (\<^verbatim>\<open>editionsData.entries\<close>, \<^verbatim>\<open>edition.covers\<close>,
  \<^verbatim>\<open>edition.identifiers.goodreads\<close> and its two siblings).
\<close>

record identifiers =
  goodreads :: "string list option"
  amazon :: "string list option"
  google :: "string list option"

record edition =
  covers :: "int list option"
  identifiers :: "identifiers option"

record editions =
  entries :: "edition list"

subsection \<open>The world and the environment\<close>

datatype console_level = Warn | Log | Err

datatype event =
  Fetch string
| SetItem string string
| GetItem string
| Console console_level string "js_error option"
| Sleep nat

text \<open>
  An HTTP response: its status and its body text. \<^verbatim>\<open>response.ok\<close> is defined by the
  Fetch standard as a status in the range 200 to 299.
\<close>

record response =
  status :: nat
  body :: string

definition ok :: "response \<Rightarrow> bool" where
  "ok r = (200 \<le> status r \<and> status r \<le> 299)"

text \<open>
  The environment is everything the module is given and cannot change: the constant
  \<^verbatim>\<open>OPEN_LIBRARY_URL\<close> of \<^verbatim>\<open>../constants\<close> (not among the source files, so a
  parameter), the network (what the \<open>n\<close>-th \<^verbatim>\<open>fetch\<close> of the session returns for a
  URL: a response, or the error the promise rejects with), the platform's JSON functions,
  and the values \<^verbatim>\<open>Math.random()\<close> returns, in call order. \<open>json_search\<close> and its
  siblings are \<^verbatim>\<open>response.json()\<close> read at the type the call site declares;
  \<open>JSON_stringify\<close> and \<open>JSON_parse\<close> are the two calls on the cache value.
\<close>

record env =
  OPEN_LIBRARY_URL :: string
  network :: "nat \<Rightarrow> string \<Rightarrow> js_error + response"
  json_search :: "string \<Rightarrow> js_error + SearchResult"
  json_book :: "string \<Rightarrow> js_error + Book"
  json_editions :: "string \<Rightarrow> js_error + editions"
  json_author :: "string \<Rightarrow> js_error + Author"
  JSON_stringify :: "BrowseResult \<Rightarrow> string"
  JSON_parse :: "string \<Rightarrow> js_error + BrowseResult"
  Math_random :: "nat \<Rightarrow> real"

text \<open>
  The world is what changes: \<^verbatim>\<open>sessionStorage\<close> (string keys, string values), the
  number of fetches issued and of random numbers drawn so far, the arrays on the heap
  (arrays of strings, and arrays of the \<^verbatim>\<open>{ value, sort }\<close> objects of the shuffle,
  both addressed by the same allocator), and the trace of everything the module did to
  the outside, in order.
\<close>

record world =
  storage :: "string \<Rightarrow> string option"
  fetches :: nat
  randoms :: nat
  string_arrays :: "nat \<Rightarrow> string list"
  keyed_arrays :: "nat \<Rightarrow> (string \<times> real) list"
  next_addr :: nat
  trace :: "event list"

type_synonym 'a io = "world \<Rightarrow> (js_error + 'a) \<times> world"

definition return :: "'a \<Rightarrow> 'a io" where
  "return x = (\<lambda>w. (Inr x, w))"

definition throw :: "js_error \<Rightarrow> 'a io" where
  "throw e = (\<lambda>w. (Inl e, w))"

text \<open>\<open>bind m f\<close> is \<^verbatim>\<open>const x = await m; f(x)\<close>: an exception in \<open>m\<close> skips \<open>f\<close>.\<close>

definition bind :: "'a io \<Rightarrow> ('a \<Rightarrow> 'b io) \<Rightarrow> 'b io" where
  "bind m f = (\<lambda>w. case m w of (Inl e, w') \<Rightarrow> (Inl e, w') | (Inr x, w') \<Rightarrow> f x w')"

text \<open>\<open>try_catch m h\<close> is \<^verbatim>\<open>try { m } catch (error) { h(error) }\<close>.\<close>

definition try_catch :: "'a io \<Rightarrow> (js_error \<Rightarrow> 'a io) \<Rightarrow> 'a io" where
  "try_catch m h = (\<lambda>w. case m w of (Inl e, w') \<Rightarrow> h e w' | (Inr x, w') \<Rightarrow> (Inr x, w'))"

definition emit :: "event \<Rightarrow> world \<Rightarrow> world" where
  "emit ev w = w\<lparr>trace := trace w @ [ev]\<rparr>"

definition fetch :: "env \<Rightarrow> string \<Rightarrow> response io" where
  "fetch env url =
     (\<lambda>w. (network env (fetches w) url, emit (Fetch url) (w\<lparr>fetches := Suc (fetches w)\<rparr>)))"

definition response_json :: "(string \<Rightarrow> js_error + 'a) \<Rightarrow> response \<Rightarrow> 'a io" where
  "response_json parse r = (\<lambda>w. (parse (body r), w))"

text \<open>
  The storage accepts every write: a browser's quota error is not modelled. \<^verbatim>\<open>getItem\<close>
  returns \<^verbatim>\<open>null\<close>, here \<open>None\<close>, for a key that holds nothing.
\<close>

definition sessionStorage_setItem :: "string \<Rightarrow> string \<Rightarrow> unit io" where
  "sessionStorage_setItem k v =
     (\<lambda>w. (Inr (), emit (SetItem k v) (w\<lparr>storage := (storage w)(k \<mapsto> v)\<rparr>)))"

definition sessionStorage_getItem :: "string \<Rightarrow> string option io" where
  "sessionStorage_getItem k = (\<lambda>w. (Inr (storage w k), emit (GetItem k) w))"

definition console :: "console_level \<Rightarrow> string \<Rightarrow> js_error option \<Rightarrow> unit io" where
  "console lvl msg err = (\<lambda>w. (Inr (), emit (Console lvl msg err) w))"

text \<open>\<^verbatim>\<open>const sleep = (ms) => new Promise(resolve => setTimeout(resolve, ms))\<close>\<close>

definition sleep :: "nat \<Rightarrow> unit io" where
  "sleep ms = (\<lambda>w. (Inr (), emit (Sleep ms) w))"

subsection \<open>Numbers to strings, URLSearchParams\<close>

text \<open>The decimal digits of a natural number.\<close>

definition digit_char :: "nat \<Rightarrow> char" where
  "digit_char d = char_of (48 + d)"

fun nat_toString :: "nat \<Rightarrow> string" where
  "nat_toString n =
     (if n < 10 then [digit_char n] else nat_toString (n div 10) @ [digit_char (n mod 10)])"

text \<open>
  The values of type \<^verbatim>\<open>number\<close> that arithmetic on whole numbers reaches: the
  integer-valued IEEE-754 doubles, the two infinities and NaN. \<open>Num i\<close> is meant for an
  \<open>i\<close> that a double holds, which is what \<open>fl\<close> returns: \<open>fl x\<close> is the double
  nearest to the integer \<open>x\<close>, ties to the even significand of 53 bits, and an
  infinity from \<open>2^1024\<close> on. Integers have no subnormal range and no negative zero
  that the code below could tell from zero (\<^verbatim>\<open>(-0).toString()\<close> is \<^verbatim>\<open>"0"\<close>).
\<close>

datatype js_number = Num int | Infinity | NegInfinity | NaN

fun bit_length :: "nat \<Rightarrow> nat" where
  "bit_length n = (if n = 0 then 0 else Suc (bit_length (n div 2)))"

definition round_nat :: "nat \<Rightarrow> nat" where
  "round_nat x =
     (if x < 2 ^ 53 then x
      else let e = bit_length x - 53; q = x div 2 ^ e; r = x mod 2 ^ e; half = 2 ^ (e - 1)
           in if half < r \<or> (r = half \<and> odd q) then (q + 1) * 2 ^ e else q * 2 ^ e)"

definition fl :: "int \<Rightarrow> js_number" where
  "fl x =
     (let y = round_nat (nat \<bar>x\<bar>)
      in if 2 ^ 1024 \<le> y then (if x < 0 then NegInfinity else Infinity)
         else Num (if x < 0 then - int y else int y))"

text \<open>The operators \<^verbatim>\<open>-\<close> and \<^verbatim>\<open>*\<close> on numbers: the exact result, rounded.\<close>

definition sign_of :: "js_number \<Rightarrow> int" where
  "sign_of x = (case x of Num a \<Rightarrow> sgn a | Infinity \<Rightarrow> 1 | NegInfinity \<Rightarrow> - 1 | NaN \<Rightarrow> 0)"

fun js_times :: "js_number \<Rightarrow> js_number \<Rightarrow> js_number" where
  "js_times (Num a) (Num b) = fl (a * b)"
| "js_times x y =
     (if x = NaN \<or> y = NaN \<or> sign_of x = 0 \<or> sign_of y = 0 then NaN
      else if 0 < sign_of x * sign_of y then Infinity else NegInfinity)"

fun js_minus :: "js_number \<Rightarrow> js_number \<Rightarrow> js_number" where
  "js_minus (Num a) (Num b) = fl (a - b)"
| "js_minus NaN y = NaN"
| "js_minus x NaN = NaN"
| "js_minus Infinity Infinity = NaN"
| "js_minus NegInfinity NegInfinity = NaN"
| "js_minus Infinity y = Infinity"
| "js_minus NegInfinity y = NegInfinity"
| "js_minus x Infinity = NegInfinity"
| "js_minus x NegInfinity = Infinity"

text \<open>
  \<^verbatim>\<open>Number.prototype.toString\<close> (ECMAScript, Number::toString with radix 10) on a
  positive integer-valued double \<open>x\<close>: take the least number \<open>k\<close> of digits for
  which some \<open>s\<close> of \<open>k\<close> digits and some \<open>n\<close> have \<open>s * 10^(n - k)\<close> read
  back as \<open>x\<close>, among those the pair nearest to \<open>x\<close> (the even \<open>s\<close> on a tie); print
  the digits of \<open>s\<close> followed by \<open>n - k\<close> zeros when \<open>n \<le> 21\<close>, and in exponent
  notation otherwise. As \<open>x\<close> is an integer of at least one digit, \<open>n\<close> is the number
  of digits of \<open>x\<close> or one more, \<open>s\<close> is \<open>x\<close> cut to \<open>k\<close> digits or the next number
  up, and 17 digits always suffice.
\<close>

definition candidates :: "nat \<Rightarrow> nat \<Rightarrow> (nat \<times> nat) list" where
  "candidates x k =
     concat (map (\<lambda>n. if k \<le> n
                        then filter (\<lambda>(s, n). 10 ^ (k - 1) \<le> s \<and> s < 10 ^ k
                                       \<and> fl (int (s * 10 ^ (n - k))) = Num (int x))
                               [(x div 10 ^ (n - k), n), (Suc (x div 10 ^ (n - k)), n)]
                        else [])
                 [length (nat_toString x), Suc (length (nat_toString x))])"

definition distance :: "nat \<Rightarrow> nat \<Rightarrow> nat \<times> nat \<Rightarrow> nat" where
  "distance x k c = (let v = fst c * 10 ^ (snd c - k) in if v < x then x - v else v - x)"

definition closer :: "nat \<Rightarrow> nat \<Rightarrow> nat \<times> nat \<Rightarrow> nat \<times> nat \<Rightarrow> nat \<times> nat" where
  "closer x k best c =
     (if distance x k c < distance x k best
         \<or> (distance x k c = distance x k best \<and> even (fst c) \<and> odd (fst best))
      then c else best)"

definition format_digits :: "nat \<Rightarrow> nat \<Rightarrow> nat \<Rightarrow> string" where
  "format_digits k s n =
     (if n \<le> 21 then nat_toString s @ replicate (n - k) CHR ''0''
      else (if k = 1 then nat_toString s
            else hd (nat_toString s) # CHR ''.'' # tl (nat_toString s))
           @ ''e+'' @ nat_toString (n - 1))"

definition pos_toString :: "nat \<Rightarrow> string" where
  "pos_toString x =
     (case find (\<lambda>k. candidates x k \<noteq> []) [1 ..< 18] of
        None \<Rightarrow> nat_toString x
      | Some k \<Rightarrow>
          (case candidates x k of
             [] \<Rightarrow> nat_toString x
           | c # cs \<Rightarrow> (case foldl (closer x k) c cs of (s, n) \<Rightarrow> format_digits k s n)))"

definition toString :: "js_number \<Rightarrow> string" where
  "toString x =
     (case x of
        NaN \<Rightarrow> ''NaN'' | Infinity \<Rightarrow> ''Infinity'' | NegInfinity \<Rightarrow> ''-Infinity''
      | Num i \<Rightarrow> if i = 0 then ''0''
                 else if i < 0 then CHR ''-'' # pos_toString (nat (- i))
                 else pos_toString (nat i))"

text \<open>
  A \<^verbatim>\<open>URLSearchParams\<close> object is its list of name-value pairs. \<^verbatim>\<open>append\<close> adds a
  pair at the end; \<^verbatim>\<open>set\<close> overwrites the first pair of that name and removes the
  others, or appends when there is none; \<^verbatim>\<open>get\<close> reads the first pair of that name.
\<close>

type_synonym URLSearchParams = "(string \<times> string) list"

definition sp_append :: "string \<Rightarrow> string \<Rightarrow> URLSearchParams \<Rightarrow> URLSearchParams" where
  "sp_append n v ps = ps @ [(n, v)]"

fun sp_replace :: "string \<Rightarrow> string \<Rightarrow> URLSearchParams \<Rightarrow> URLSearchParams" where
  "sp_replace n v [] = []"
| "sp_replace n v (p # ps) =
     (if fst p = n then (n, v) # filter (\<lambda>q. fst q \<noteq> n) ps else p # sp_replace n v ps)"

definition sp_set :: "string \<Rightarrow> string \<Rightarrow> URLSearchParams \<Rightarrow> URLSearchParams" where
  "sp_set n v ps = (if n \<in> fst ` set ps then sp_replace n v ps else ps @ [(n, v)])"

definition sp_get :: "string \<Rightarrow> URLSearchParams \<Rightarrow> string option" where
  "sp_get n ps = map_of ps n"

text \<open>
  \<^verbatim>\<open>toString\<close> of the parameters is the application/x-www-form-urlencoded
  serialisation of the URL standard: of each byte of a name or value, ASCII letters and
  digits and \<^verbatim>\<open>* - . _\<close> stay, a space becomes \<^verbatim>\<open>+\<close>, any other byte becomes
  \<^verbatim>\<open>%\<close> and two upper-case hexadecimal digits. A string is its UTF-8 bytes.
\<close>

definition hex_digit :: "nat \<Rightarrow> char" where
  "hex_digit d = (if d < 10 then char_of (48 + d) else char_of (55 + d))"

definition form_safe :: "char \<Rightarrow> bool" where
  "form_safe c =
     (let n = (of_char c :: nat)
      in (48 \<le> n \<and> n \<le> 57) \<or> (65 \<le> n \<and> n \<le> 90) \<or> (97 \<le> n \<and> n \<le> 122)
         \<or> n = 42 \<or> n = 45 \<or> n = 46 \<or> n = 95)"

definition form_encode_byte :: "char \<Rightarrow> string" where
  "form_encode_byte c =
     (if c = CHR '' '' then ''+''
      else if form_safe c then [c]
      else [CHR ''%'', hex_digit (of_char c div 16), hex_digit (of_char c mod 16)])"

definition form_encode :: "string \<Rightarrow> string" where
  "form_encode s = concat (map form_encode_byte s)"

fun join_amp :: "string list \<Rightarrow> string" where
  "join_amp [] = []"
| "join_amp [x] = x"
| "join_amp (x # y # zs) = x @ ''&'' @ join_amp (y # zs)"

definition sp_toString :: "URLSearchParams \<Rightarrow> string" where
  "sp_toString ps = join_amp (map (\<lambda>(n, v). form_encode n @ ''='' @ form_encode v) ps)"

subsection \<open>browseBooks\<close>

text \<open>JavaScript truthiness of an optional string: present and not empty.\<close>

definition truthy :: "string option \<Rightarrow> bool" where
  "truthy s = (case s of None \<Rightarrow> False | Some t \<Rightarrow> t \<noteq> [])"

text \<open>
  Lines 34 to 57: the defaults of the destructuring and the parameters, in order. The
  offset is computed in doubles, \<^verbatim>\<open>(page - 1) * limit\<close>, and printed by
  \<^verbatim>\<open>toString\<close>.
\<close>

definition limit_of :: "BrowseOptions \<Rightarrow> js_number" where
  "limit_of options = fl (case limit options of None \<Rightarrow> 40 | Some l \<Rightarrow> l)"

definition page_of :: "BrowseOptions \<Rightarrow> js_number" where
  "page_of options = fl (case page options of None \<Rightarrow> 1 | Some p \<Rightarrow> p)"

definition offset_of :: "BrowseOptions \<Rightarrow> js_number" where
  "offset_of options = js_times (js_minus (page_of options) (Num 1)) (limit_of options)"

definition searchParams :: "BrowseOptions \<Rightarrow> URLSearchParams" where
  "searchParams options =
     (let sp0 = sp_set ''q'' (if truthy (query options) then the (query options) else ''*'') [];
          sp1 = (case genres options of
                   None \<Rightarrow> sp0
                 | Some gs \<Rightarrow> if length gs > 0 then foldl (\<lambda>sp genre. sp_append ''subject'' genre sp) sp0 gs
                             else sp0);
          sp2 = (if truthy (year options) then sp_set ''publish_year'' (the (year options)) sp1
                 else sp1);
          sp3 = (if truthy (sort_by options) \<and> sort_by options \<noteq> Some ''relevance''
                 then sp_set ''sort'' (the (sort_by options)) sp2 else sp2);
          sp4 = sp_set ''offset'' (toString (offset_of options)) sp3;
          sp5 = sp_set ''language'' ''eng'' sp4;
          sp6 = sp_set ''limit'' (toString (limit_of options)) sp5
      in sp_set ''fields'' ''key,title,author_name,cover_i,first_publish_year'' sp6)"

definition requestUrl :: "string \<Rightarrow> BrowseOptions \<Rightarrow> string" where
  "requestUrl base options = base @ ''/search.json?'' @ sp_toString (searchParams options)"

definition cacheKey :: "string \<Rightarrow> BrowseOptions \<Rightarrow> string" where
  "cacheKey base options = ''browse_'' @ requestUrl base options"

text \<open>Lines 63 to 72, the body of the \<^verbatim>\<open>try\<close>.\<close>

definition browse_try :: "env \<Rightarrow> string \<Rightarrow> string \<Rightarrow> BrowseResult io" where
  "browse_try env url ckey =
     bind (fetch env url) (\<lambda>response.
       if \<not> ok response
       then throw (FetchError (''Network response was not ok, status: ''
                                 @ nat_toString (status response)))
       else bind (response_json (json_search env) response) (\<lambda>data.
         let filteredBooks = filter (\<lambda>doc. truthy (book_key doc)) (docs data);
             result = \<lparr>books = filteredBooks, total = numFound data\<rparr>
         in bind (sessionStorage_setItem ckey (JSON_stringify env result)) (\<lambda>_.
              return result)))"

text \<open>Lines 74 to 80, the body of the \<^verbatim>\<open>catch\<close>.\<close>

definition browse_catch :: "env \<Rightarrow> string \<Rightarrow> js_error \<Rightarrow> BrowseResult io" where
  "browse_catch env ckey error =
     bind (console Warn ''Failed to fetch from network, checking cache...'' (Some error)) (\<lambda>_.
       bind (sessionStorage_getItem ckey) (\<lambda>cachedData.
         if truthy cachedData
         then bind (console Log ''Serving from cache due to network error.'' None) (\<lambda>_.
                (\<lambda>w. (JSON_parse env (the cachedData), w)))
         else throw error))"

definition browseBooks :: "env \<Rightarrow> BrowseOptions \<Rightarrow> BrowseResult io" where
  "browseBooks env options =
     (let url = requestUrl (OPEN_LIBRARY_URL env) options;
          ckey = cacheKey (OPEN_LIBRARY_URL env) options
      in try_catch (browse_try env url ckey) (browse_catch env ckey))"

subsection \<open>getBookDetails\<close>

text \<open>
  The URLs of lines 86 and 97:
  \<^verbatim>\<open>`${OPEN_LIBRARY_URL}/works/${workId}.json`\<close> and
  \<^verbatim>\<open>`${OPEN_LIBRARY_URL}/works/${workId}/editions.json?limit=1&language=eng`\<close>.
\<close>

definition work_url :: "env \<Rightarrow> string \<Rightarrow> string" where
  "work_url env workId = OPEN_LIBRARY_URL env @ ''/works/'' @ workId @ ''.json''"

definition editions_url :: "env \<Rightarrow> string \<Rightarrow> string" where
  "editions_url env workId =
     OPEN_LIBRARY_URL env @ ''/works/'' @ workId @ ''/editions.json?limit=1&language=eng''"

text \<open>\<^verbatim>\<open>xs?.[0]\<close>: the first element, \<^verbatim>\<open>undefined\<close> when there is no list or it is empty.\<close>

definition opt_first :: "'a list option \<Rightarrow> 'a option" where
  "opt_first xs = (case xs of None \<Rightarrow> None | Some [] \<Rightarrow> None | Some (x # _) \<Rightarrow> Some x)"

text \<open>\<^verbatim>\<open>obj.k = v\<close> on an object: overwrite the property, or add it last.\<close>

fun obj_set :: "string \<Rightarrow> string \<Rightarrow> (string \<times> string) list \<Rightarrow> (string \<times> string) list" where
  "obj_set k v [] = [(k, v)]"
| "obj_set k v (p # ps) = (if fst p = k then (k, v) # ps else p # obj_set k v ps)"

text \<open>Lines 108 to 117: the object assigned to \<^verbatim>\<open>data.external_links\<close>.\<close>

definition links_of :: "identifiers \<Rightarrow> (string \<times> string) list" where
  "links_of ids =
     (let l0 = [];
          l1 = (if truthy (opt_first (goodreads ids))
                then obj_set ''goodreads''
                       (''https://www.goodreads.com/book/show/'' @ the (opt_first (goodreads ids))) l0
                else l0);
          l2 = (if truthy (opt_first (amazon ids))
                then obj_set ''amazon''
                       (''https://www.amazon.com/dp/'' @ the (opt_first (amazon ids))) l1
                else l1)
      in if truthy (opt_first (google ids))
         then obj_set ''google''
                (''https://books.google.com/books?id='' @ the (opt_first (google ids))) l2
         else l2)"

text \<open>Lines 101 to 118: what the first edition changes in the record.\<close>

definition apply_edition :: "edition \<Rightarrow> Book \<Rightarrow> Book" where
  "apply_edition ed data =
     (let data1 = (case covers ed of
                     Some (c # cs) \<Rightarrow> data\<lparr>cover_i := Some c\<rparr>
                   | _ \<Rightarrow> data)
      in case identifiers ed of
           Some ids \<Rightarrow> data1\<lparr>external_links := Some (links_of ids)\<rparr>
         | None \<Rightarrow> data1)"

text \<open>Lines 96 to 123: the edition lookup, in its \<^verbatim>\<open>try\<close> and \<^verbatim>\<open>catch\<close>.\<close>

definition edition_step :: "env \<Rightarrow> string \<Rightarrow> Book \<Rightarrow> Book io" where
  "edition_step env workId data =
     try_catch
       (bind (fetch env (editions_url env workId)) (\<lambda>editionsResponse.
          if ok editionsResponse
          then bind (response_json (json_editions env) editionsResponse) (\<lambda>editionsData.
                 case entries editionsData of
                   ed # _ \<Rightarrow> return (apply_edition ed data)
                 | [] \<Rightarrow> return data)
          else return data))
       (\<lambda>error.
          bind (console Warn (''Could not fetch edition details for '' @ workId @ '':'') (Some error))
            (\<lambda>_. return data))"

text \<open>
  Lines 127 to 144. The test \<^verbatim>\<open>data.authors && data.authors[0].author\<close> stands
  outside every \<^verbatim>\<open>try\<close>: an array is truthy also when it is empty, its element 0
  is then \<^verbatim>\<open>undefined\<close>, and reading \<^verbatim>\<open>.author\<close> of it throws a TypeError.
  \<open>CHR 0x27\<close> is the single quote.
\<close>

definition undefined_author :: js_error where
  "undefined_author =
     TypeError (''Cannot read properties of undefined (reading ''
                  @ [CHR 0x27] @ ''author'' @ [CHR 0x27] @ '')'')"

definition author_fetch :: "env \<Rightarrow> string \<Rightarrow> Book \<Rightarrow> Book io" where
  "author_fetch env authorKey data =
     try_catch
       (bind (fetch env (OPEN_LIBRARY_URL env @ authorKey @ ''.json'')) (\<lambda>authorResponse.
          if ok authorResponse
          then bind (response_json (json_author env) authorResponse) (\<lambda>authorData.
                 return (data\<lparr>author_name := Some [name authorData],
                               author_details := Some \<lparr>name = name authorData,
                                                       bio = bio authorData,
                                                       birth_date = birth_date authorData,
                                                       death_date = death_date authorData\<rparr>\<rparr>))
          else return data))
       (\<lambda>error.
          bind (console Warn (''Could not fetch author details for '' @ authorKey @ '':'') (Some error))
            (\<lambda>_. return data))"

definition author_step :: "env \<Rightarrow> Book \<Rightarrow> Book io" where
  "author_step env data =
     (case authors data of
        None \<Rightarrow> return data
      | Some [] \<Rightarrow> throw undefined_author
      | Some (a # _) \<Rightarrow>
          (case author a of
             None \<Rightarrow> return data
           | Some k \<Rightarrow> author_fetch env (key k) data))"

definition getBookDetails :: "env \<Rightarrow> string \<Rightarrow> Book io" where
  "getBookDetails env workId =
     bind (fetch env (work_url env workId)) (\<lambda>response.
       if \<not> ok response
       then (if status response = 404 then throw (BookNotFoundError workId)
             else throw (FetchError ''Failed to fetch book details from Open Library.''))
       else bind (response_json (json_book env) response) (\<lambda>data.
              bind (edition_step env workId data) (\<lambda>data. author_step env data)))"

subsection \<open>The category fetchers\<close>

definition TRENDING_FALLBACKS :: "string list" where
  "TRENDING_FALLBACKS = [''love'', ''fiction'', ''thriller'', ''adventure'', ''fantasy'']"

definition TOP_RATED_FALLBACKS :: "string list" where
  "TOP_RATED_FALLBACKS = [''history'', ''classic_literature'', ''biography'', ''science'']"

text \<open>\<^verbatim>\<open>{ genres: [subject], sort: 'relevance', limit }\<close>\<close>

definition subject_options :: "string \<Rightarrow> int \<Rightarrow> BrowseOptions" where
  "subject_options subject lmt =
     \<lparr>query = None, genres = Some [subject], year = None, sort_by = Some ''relevance'',
      limit = Some lmt, page = None\<rparr>"

text \<open>
  The three loops are the same text but for the list and the two messages. \<open>attempt\<close>
  is one turn of the loop, its \<^verbatim>\<open>try\<close> and \<^verbatim>\<open>catch\<close>: \<open>Some books\<close> is the
  \<^verbatim>\<open>return books\<close> that leaves the function, \<open>None\<close> goes on to the next subject.
\<close>

definition attempt :: "env \<Rightarrow> int \<Rightarrow> string \<Rightarrow> string \<Rightarrow> Book list option io" where
  "attempt env lmt warning subject =
     try_catch
       (bind (browseBooks env (subject_options subject lmt)) (\<lambda>r.
          if length (books r) > 0 then return (Some (books r)) else return None))
       (\<lambda>error.
          bind (console Warn (warning @ subject) (Some error)) (\<lambda>_.
            bind (sleep 250) (\<lambda>_. return None)))"

fun try_subjects :: "env \<Rightarrow> int \<Rightarrow> string \<Rightarrow> string list \<Rightarrow> Book list option io" where
  "try_subjects env lmt warning [] = return None"
| "try_subjects env lmt warning (subject # rest) =
     bind (attempt env lmt warning subject) (\<lambda>found.
       case found of
         Some bs \<Rightarrow> return (Some bs)
       | None \<Rightarrow> try_subjects env lmt warning rest)"

definition fallback :: "env \<Rightarrow> int \<Rightarrow> string \<Rightarrow> string \<Rightarrow> string list \<Rightarrow> Book list io" where
  "fallback env lmt warning failure subjects =
     bind (try_subjects env lmt warning subjects) (\<lambda>found.
       case found of
         Some bs \<Rightarrow> return bs
       | None \<Rightarrow> bind (console Err failure None) (\<lambda>_. return []))"

text \<open>\<^verbatim>\<open>limit: number = 20\<close>\<close>

definition default_limit :: "int option \<Rightarrow> int" where
  "default_limit lmt = (case lmt of None \<Rightarrow> 20 | Some l \<Rightarrow> l)"

definition getTrendingBooks :: "env \<Rightarrow> int option \<Rightarrow> Book list io" where
  "getTrendingBooks env lmt =
     fallback env (default_limit lmt) ''Trending fallback failed for subject: ''
       ''All fallback subjects for trending books failed.'' TRENDING_FALLBACKS"

definition getTopRatedBooks :: "env \<Rightarrow> int option \<Rightarrow> Book list io" where
  "getTopRatedBooks env lmt =
     fallback env (default_limit lmt) ''Top rated fallback failed for subject: ''
       ''All fallback subjects for top-rated books failed.'' TOP_RATED_FALLBACKS"

text \<open>
  \<^verbatim>\<open>POPULAR_RANDOM_SUBJECTS\<close> is a reference to an array on the heap, which the
  module creates when it is loaded; \<open>popular_random_subjects\<close> is the array literal of
  lines 186 to 193. The shuffle is four array operations: the spread copies into a new
  array, each \<^verbatim>\<open>map\<close> builds a new array, and \<^verbatim>\<open>sort\<close> sorts its receiver in
  place (stably, by the comparator \<^verbatim>\<open>a.sort - b.sort\<close>, that is by ascending key).
\<close>

definition POPULAR_RANDOM_SUBJECTS :: nat where
  "POPULAR_RANDOM_SUBJECTS = 0"

definition popular_random_subjects :: "string list" where
  "popular_random_subjects =
     [''adventure'', ''fantasy'', ''science_fiction'', ''romance'', ''thriller'', ''mystery'']"

definition module_loaded :: "world \<Rightarrow> bool" where
  "module_loaded w = (string_arrays w POPULAR_RANDOM_SUBJECTS = popular_random_subjects)"

definition new_string_array :: "string list \<Rightarrow> nat io" where
  "new_string_array xs =
     (\<lambda>w. (Inr (next_addr w),
            w\<lparr>string_arrays := (string_arrays w)(next_addr w := xs),
              next_addr := Suc (next_addr w)\<rparr>))"

definition new_keyed_array :: "(string \<times> real) list \<Rightarrow> nat io" where
  "new_keyed_array xs =
     (\<lambda>w. (Inr (next_addr w),
            w\<lparr>keyed_arrays := (keyed_arrays w)(next_addr w := xs),
              next_addr := Suc (next_addr w)\<rparr>))"

text \<open>\<^verbatim>\<open>[...a]\<close>\<close>

definition spread :: "nat \<Rightarrow> nat io" where
  "spread a = (\<lambda>w. new_string_array (string_arrays w a) w)"

text \<open>\<^verbatim>\<open>.map(value => ({ value, sort: Math.random() }))\<close>: one draw per element, in order.\<close>

definition map_random :: "env \<Rightarrow> nat \<Rightarrow> nat io" where
  "map_random env a =
     (\<lambda>w. let xs = string_arrays w a;
               ks = map (\<lambda>i. Math_random env (randoms w + i)) [0 ..< length xs]
           in new_keyed_array (zip xs ks) (w\<lparr>randoms := randoms w + length xs\<rparr>))"

text \<open>\<^verbatim>\<open>.sort((a, b) => a.sort - b.sort)\<close>: writes the receiver and returns it.\<close>

definition sort_in_place :: "nat \<Rightarrow> nat io" where
  "sort_in_place a =
     (\<lambda>w. (Inr a, w\<lparr>keyed_arrays := (keyed_arrays w)(a := sort_key snd (keyed_arrays w a))\<rparr>))"

text \<open>\<^verbatim>\<open>.map(({ value }) => value)\<close>\<close>

definition map_value :: "nat \<Rightarrow> nat io" where
  "map_value a = (\<lambda>w. new_string_array (map fst (keyed_arrays w a)) w)"

definition read_array :: "nat \<Rightarrow> string list io" where
  "read_array a = (\<lambda>w. (Inr (string_arrays w a), w))"

text \<open>Lines 196 to 199: \<^verbatim>\<open>subjectsToTry\<close>, and the elements the loop then iterates.\<close>

definition subjectsToTry :: "env \<Rightarrow> string list io" where
  "subjectsToTry env =
     bind (spread POPULAR_RANDOM_SUBJECTS) (\<lambda>a1.
       bind (map_random env a1) (\<lambda>a2.
         bind (sort_in_place a2) (\<lambda>a3.
           bind (map_value a3) (\<lambda>a4. read_array a4))))"

definition getRandomBooks :: "env \<Rightarrow> int option \<Rightarrow> Book list io" where
  "getRandomBooks env lmt =
     bind (subjectsToTry env) (\<lambda>subjects.
       fallback env (default_limit lmt) ''Random books failed for subject: ''
         ''All random subjects failed to return results.'' subjects)"

subsection \<open>Reading the trace, and the situations the properties speak of\<close>

text \<open>
  The events a call added to the trace; the URLs fetched in a list of events, and the
  storage keys written or read in it.
\<close>

definition new_events :: "world \<Rightarrow> world \<Rightarrow> event list" where
  "new_events w w' = drop (length (trace w)) (trace w')"

fun fetched_urls :: "event list \<Rightarrow> string list" where
  "fetched_urls [] = []"
| "fetched_urls (Fetch url # evs) = url # fetched_urls evs"
| "fetched_urls (_ # evs) = fetched_urls evs"

fun storage_keys :: "event list \<Rightarrow> string list" where
  "storage_keys [] = []"
| "storage_keys (SetItem k v # evs) = k # storage_keys evs"
| "storage_keys (GetItem k # evs) = k # storage_keys evs"
| "storage_keys (_ # evs) = storage_keys evs"

text \<open>The world right after a \<^verbatim>\<open>fetch\<close> of \<open>url\<close> was issued.\<close>

definition after_fetch :: "string \<Rightarrow> world \<Rightarrow> world" where
  "after_fetch url w = emit (Fetch url) (w\<lparr>fetches := Suc (fetches w)\<rparr>)"

text \<open>The error of line 65 for a response whose status is not a success.\<close>

definition not_ok_error :: "response \<Rightarrow> js_error" where
  "not_ok_error r =
     FetchError (''Network response was not ok, status: '' @ nat_toString (status r))"

text \<open>
  Steps 1 and 2 of \<^verbatim>\<open>browseBooks\<close> fail in world \<open>w\<close> with the error \<open>e\<close>: the
  network rejects the fetch with \<open>e\<close>, or the response is not a success and \<open>e\<close> is the
  FetchError made for it, or the body does not parse and \<open>e\<close> is what the parser throws.
\<close>

definition fetch_or_parse_fails :: "env \<Rightarrow> world \<Rightarrow> string \<Rightarrow> js_error \<Rightarrow> bool" where
  "fetch_or_parse_fails env w url e =
     (case network env (fetches w) url of
        Inl e' \<Rightarrow> e = e'
      | Inr r \<Rightarrow> if ok r then json_search env (body r) = Inl e else e = not_ok_error r)"

text \<open>
  The edition \<^verbatim>\<open>getBookDetails\<close> finds for a work: the first entry of a successful,
  parsable editions response. The editions request is the second fetch of the call.
\<close>

definition found_edition :: "env \<Rightarrow> world \<Rightarrow> string \<Rightarrow> edition option" where
  "found_edition env w workId =
     (case network env (Suc (fetches w)) (editions_url env workId) of
        Inl e \<Rightarrow> None
      | Inr r \<Rightarrow>
          if ok r
          then (case json_editions env (body r) of
                  Inl e \<Rightarrow> None
                | Inr listing \<Rightarrow> (case entries listing of [] \<Rightarrow> None | ed # _ \<Rightarrow> Some ed))
          else None)"

text \<open>
  \<open>misses env lmt warning subjects w w'\<close>: starting in world \<open>w\<close>, the browse call of
  every subject of the list, taken in order, threw or returned no book, and \<open>w'\<close> is the
  world after the last of them. After an empty result the next subject starts in the
  world the call left; after a thrown call it starts once the warning is logged and the
  250 ms have been slept.
\<close>

inductive misses :: "env \<Rightarrow> int \<Rightarrow> string \<Rightarrow> string list \<Rightarrow> world \<Rightarrow> world \<Rightarrow> bool" where
  misses_done: "misses env lmt warning [] w w"
| misses_empty:
    "browseBooks env (subject_options s lmt) w = (Inr r, w1) \<Longrightarrow> books r = [] \<Longrightarrow>
     misses env lmt warning ss w1 w2 \<Longrightarrow>
     misses env lmt warning (s # ss) w w2"
| misses_thrown:
    "browseBooks env (subject_options s lmt) w = (Inl e, w1) \<Longrightarrow>
     misses env lmt warning ss (emit (Sleep 250) (emit (Console Warn (warning @ s) (Some e)) w1)) w2 \<Longrightarrow>
     misses env lmt warning (s # ss) w w2"

code_pred (modes: i \<Rightarrow> i \<Rightarrow> i \<Rightarrow> i \<Rightarrow> i \<Rightarrow> o \<Rightarrow> bool) misses .

text \<open>
  The decimal text of an integer, as the specification writes a number: a minus sign
  when it is negative, and all its digits.
\<close>

definition decimal :: "int \<Rightarrow> string" where
  "decimal i = (if i < 0 then CHR ''-'' # nat_toString (nat (- i)) else nat_toString (nat i))"

text \<open>
  The parameters \<^verbatim>\<open>browseBooks\<close> sets before \<^verbatim>\<open>offset\<close>, in order: \<^verbatim>\<open>q\<close>, one
  \<^verbatim>\<open>subject\<close> per genre, \<^verbatim>\<open>publish_year\<close> and \<^verbatim>\<open>sort\<close> when they are given.
\<close>

definition front_params :: "BrowseOptions \<Rightarrow> URLSearchParams" where
  "front_params options =
     [(''q'', if truthy (query options) then the (query options) else ''*'')]
     @ (case genres options of None \<Rightarrow> [] | Some gs \<Rightarrow> map (\<lambda>g. (''subject'', g)) gs)
     @ (if truthy (year options) then [(''publish_year'', the (year options))] else [])
     @ (if truthy (sort_by options) \<and> sort_by options \<noteq> Some ''relevance''
        then [(''sort'', the (sort_by options))] else [])"

text \<open>The number a decimal digit stands for.\<close>

definition digit_value :: "char \<Rightarrow> nat" where
  "digit_value c = of_char c - 48"

text \<open>
  The canonical URL for the first identifier of one type: none when the type is absent
  from the identifiers object, its list is empty or its first identifier is the empty
  string. \<open>link_entry\<close> is the property an \<^verbatim>\<open>external_links\<close> object holds for it.
\<close>

definition link_for :: "string \<Rightarrow> string list option \<Rightarrow> string option" where
  "link_for prefix xs =
     (case xs of
        Some (x # _) \<Rightarrow> if x \<noteq> [] then Some (prefix @ x) else None
      | _ \<Rightarrow> None)"

definition link_entry :: "string \<Rightarrow> string option \<Rightarrow> (string \<times> string) list" where
  "link_entry k v = (case v of None \<Rightarrow> [] | Some u \<Rightarrow> [(k, u)])"

text \<open>The warnings of lines 122 and 142, as events.\<close>

definition edition_warning :: "string \<Rightarrow> js_error \<Rightarrow> event" where
  "edition_warning workId e =
     Console Warn (''Could not fetch edition details for '' @ workId @ '':'') (Some e)"

definition author_warning :: "string \<Rightarrow> js_error \<Rightarrow> event" where
  "author_warning authorKey e =
     Console Warn (''Could not fetch author details for '' @ authorKey @ '':'') (Some e)"

text \<open>The next \<open>n\<close> values of \<^verbatim>\<open>Math.random()\<close> in world \<open>w\<close>.\<close>

definition drawn_keys :: "env \<Rightarrow> world \<Rightarrow> nat \<Rightarrow> real list" where
  "drawn_keys env w n = map (\<lambda>i. Math_random env (randoms w + i)) [0 ..< n]"

subsection \<open>An example session\<close>

text \<open>
  A concrete environment and world, on which the properties below are instantiated: a
  catalogue that answers every search with the same three documents (one without an
  identifier, one with an empty one), a work whose first edition has a cover and a
  Goodreads identifier, and a few networks: one that rejects every fetch, one that
  answers every fetch with a given status, one that answers only the first fetch, and one
  that rejects only the first.
\<close>

definition failed_to_fetch :: js_error where
  "failed_to_fetch = TypeError ''Failed to fetch''"

definition dune :: Book where
  "dune = \<lparr>book_key = Some ''/works/OL893415W'', title = Some ''Dune'',
           author_name = Some [''Frank Herbert''], cover_i = None,
           first_publish_year = Some 1965, external_links = None, author_details = None,
           authors = None\<rparr>"

definition first_edition :: edition where
  "first_edition =
     \<lparr>covers = Some [11481354],
      identifiers = Some \<lparr>goodreads = Some [''44767458''], amazon = None, google = Some []\<rparr>\<rparr>"

definition example_env :: "(nat \<Rightarrow> string \<Rightarrow> js_error + response) \<Rightarrow> Book \<Rightarrow> env" where
  "example_env net work =
     \<lparr>OPEN_LIBRARY_URL = ''https://openlibrary.org'',
      network = net,
      json_search = (\<lambda>s. Inr \<lparr>docs = [dune, dune\<lparr>book_key := None\<rparr>, dune\<lparr>book_key := Some []\<rparr>],
                              numFound = 3\<rparr>),
      json_book = (\<lambda>s. Inr work),
      json_editions = (\<lambda>s. Inr \<lparr>entries = [first_edition]\<rparr>),
      json_author = (\<lambda>s. Inr \<lparr>name = ''Frank Herbert'', bio = None,
                              birth_date = Some ''1920'', death_date = Some ''1986''\<rparr>),
      JSON_stringify = (\<lambda>r. ''cached''),
      JSON_parse = (\<lambda>s. Inr \<lparr>books = [dune], total = 3\<rparr>),
      Math_random = (\<lambda>n. if even n then 1 / 2 else 1 / 4)\<rparr>"

definition offline :: "nat \<Rightarrow> string \<Rightarrow> js_error + response" where
  "offline n url = Inl failed_to_fetch"

definition answering :: "nat \<Rightarrow> nat \<Rightarrow> string \<Rightarrow> js_error + response" where
  "answering code n url = Inr \<lparr>status = code, body = ''{}''\<rparr>"

definition first_only :: "nat \<Rightarrow> string \<Rightarrow> js_error + response" where
  "first_only n url = (if n = 0 then Inr \<lparr>status = 200, body = ''{}''\<rparr> else Inl failed_to_fetch)"

definition flaky :: "nat \<Rightarrow> string \<Rightarrow> js_error + response" where
  "flaky n url = (if n = 0 then Inl failed_to_fetch else Inr \<lparr>status = 200, body = ''{}''\<rparr>)"

definition fresh_world :: world where
  "fresh_world =
     \<lparr>storage = (\<lambda>k. None), fetches = 0, randoms = 0,
      string_arrays = (\<lambda>a. if a = POPULAR_RANDOM_SUBJECTS then popular_random_subjects else []),
      keyed_arrays = (\<lambda>a. []), next_addr = 1, trace = []\<rparr>"

definition dune_options :: BrowseOptions where
  "dune_options = \<lparr>query = Some ''dune'', genres = None, year = None, sort_by = None,
                    limit = Some 10, page = Some 1\<rparr>"


section \<open>Properties\<close>

declare nat_toString.simps [simp del]

declare bit_length.simps [simp del]

declare try_subjects.simps [simp del]

subsection \<open>The world after a step\<close>

lemma trace_emit: "trace (emit ev w) = trace w @ [ev]"
  by (simp add: emit_def)

lemma storage_emit: "storage (emit ev w) = storage w"
  by (simp add: emit_def)

lemma arrays_emit: "string_arrays (emit ev w) = string_arrays w"
  by (simp add: emit_def)

lemma trace_after_fetch: "trace (after_fetch url w) = trace w @ [Fetch url]"
  by (simp add: after_fetch_def emit_def)

lemma storage_after_fetch: "storage (after_fetch url w) = storage w"
  by (simp add: after_fetch_def emit_def)

lemma fetches_after_fetch: "fetches (after_fetch url w) = Suc (fetches w)"
  by (simp add: after_fetch_def emit_def)

lemma arrays_after_fetch: "string_arrays (after_fetch url w) = string_arrays w"
  by (simp add: after_fetch_def emit_def)

lemma fetch_cases: "fetch env url w = (network env (fetches w) url, after_fetch url w)"
  by (simp add: fetch_def after_fetch_def)

lemma truthy_iff: "truthy s \<longleftrightarrow> s \<noteq> None \<and> s \<noteq> Some []"
  by (simp add: truthy_def split: option.splits)

lemma fetched_urls_append: "fetched_urls (xs @ ys) = fetched_urls xs @ fetched_urls ys"
  by (induction xs rule: fetched_urls.induct) simp_all

subsection \<open>browseBooks: the two blocks, case by case\<close>

lemma browse_try_cases:
  "browse_try env url k w =
     (case network env (fetches w) url of
        Inl e \<Rightarrow> (Inl e, after_fetch url w)
      | Inr r \<Rightarrow>
          if \<not> ok r then (Inl (not_ok_error r), after_fetch url w)
          else (case json_search env (body r) of
                  Inl e \<Rightarrow> (Inl e, after_fetch url w)
                | Inr data \<Rightarrow>
                    (Inr \<lparr>books = filter (\<lambda>doc. truthy (book_key doc)) (docs data),
                          total = numFound data\<rparr>,
                     emit (SetItem k (JSON_stringify env
                            \<lparr>books = filter (\<lambda>doc. truthy (book_key doc)) (docs data),
                             total = numFound data\<rparr>))
                       ((after_fetch url w)\<lparr>storage := (storage w)(k \<mapsto> JSON_stringify env
                            \<lparr>books = filter (\<lambda>doc. truthy (book_key doc)) (docs data),
                             total = numFound data\<rparr>)\<rparr>))))"
  by (simp add: browse_try_def bind_def fetch_def throw_def return_def response_json_def
      sessionStorage_setItem_def after_fetch_def not_ok_error_def Let_def emit_def
      split: sum.splits)

lemma browse_try_fails:
  "fetch_or_parse_fails env w url e \<Longrightarrow> browse_try env url k w = (Inl e, after_fetch url w)"
  by (auto simp: browse_try_cases fetch_or_parse_fails_def split: sum.splits if_splits)

lemma browse_catch_cases:
  "browse_catch env k e w =
     (if truthy (storage w k)
      then (JSON_parse env (the (storage w k)),
            emit (Console Log ''Serving from cache due to network error.'' None)
              (emit (GetItem k)
                 (emit (Console Warn ''Failed to fetch from network, checking cache...'' (Some e)) w)))
      else (Inl e,
            emit (GetItem k)
              (emit (Console Warn ''Failed to fetch from network, checking cache...'' (Some e)) w)))"
  by (simp add: browse_catch_def bind_def console_def sessionStorage_getItem_def throw_def emit_def)

lemma browseBooks_try_catch:
  "browseBooks env options w =
     (case browse_try env (requestUrl (OPEN_LIBRARY_URL env) options)
             (cacheKey (OPEN_LIBRARY_URL env) options) w of
        (Inl e, w1) \<Rightarrow> browse_catch env (cacheKey (OPEN_LIBRARY_URL env) options) e w1
      | (Inr x, w1) \<Rightarrow> (Inr x, w1))"
  by (simp add: browseBooks_def try_catch_def Let_def)

lemma browseBooks_ok:
  assumes "network env (fetches w) (requestUrl (OPEN_LIBRARY_URL env) options) = Inr r"
    and "ok r"
    and "json_search env (body r) = Inr data"
  shows "\<exists>result w'.
           browseBooks env options w = (Inr result, w')
         \<and> books result = filter (\<lambda>doc. book_key doc \<noteq> None \<and> book_key doc \<noteq> Some []) (docs data)
         \<and> total result = numFound data
         \<and> storage w' = (storage w)(''browse_'' @ requestUrl (OPEN_LIBRARY_URL env) options
                                      \<mapsto> JSON_stringify env result)
         \<and> new_events w w' =
             [Fetch (requestUrl (OPEN_LIBRARY_URL env) options),
              SetItem (''browse_'' @ requestUrl (OPEN_LIBRARY_URL env) options)
                (JSON_stringify env result)]"
  using assms
  by (simp add: browseBooks_try_catch browse_try_cases truthy_iff cacheKey_def
      storage_emit trace_emit trace_after_fetch new_events_def)

lemma browseBooks_trace:
  "\<exists>evs. trace (snd (browseBooks env options w)) = trace w @ evs
       \<and> fetched_urls evs = [requestUrl (OPEN_LIBRARY_URL env) options]
       \<and> storage_keys evs = [cacheKey (OPEN_LIBRARY_URL env) options]"
  by (simp add: browseBooks_try_catch browse_try_cases browse_catch_cases trace_emit
      trace_after_fetch split: sum.splits)

lemma browseBooks_trace_of:
  "browseBooks env options w = (x, w') \<Longrightarrow>
   \<exists>evs. trace w' = trace w @ evs
       \<and> fetched_urls evs = [requestUrl (OPEN_LIBRARY_URL env) options]"
  using browseBooks_trace[of env options w] by auto

lemma browseBooks_storage_frame:
  "k \<noteq> cacheKey (OPEN_LIBRARY_URL env) options \<Longrightarrow>
   storage (snd (browseBooks env options w)) k = storage w k"
  by (simp add: browseBooks_try_catch browse_try_cases browse_catch_cases storage_emit
      storage_after_fetch split: sum.splits)

lemma browseBooks_arrays: "string_arrays (snd (browseBooks env options w)) = string_arrays w"
  by (simp add: browseBooks_try_catch browse_try_cases browse_catch_cases arrays_emit
      arrays_after_fetch split: sum.splits)

subsection \<open>browseBooks: a successful fetch\<close>

text \<open>
  Claim C5. When the fetch of the request URL resolves with a success status and the body
  parses to a result \<open>data\<close> with its \<^verbatim>\<open>docs\<close> and \<^verbatim>\<open>numFound\<close>,
  \<^verbatim>\<open>browseBooks\<close> returns a pair whose \<^verbatim>\<open>books\<close> are the documents of
  \<^verbatim>\<open>docs\<close> that have an identifier which is not the empty string, in their order,
  and whose \<^verbatim>\<open>total\<close> is \<^verbatim>\<open>numFound\<close>. In the world it returns in, the session
  storage holds the serialised pair under \<^verbatim>\<open>browse_\<close> followed by the request URL, and
  the call did exactly two things: the fetch, then that write. The storage is taken to
  accept every write (no quota).
\<close>

theorem browseBooks_success:
  assumes "network env (fetches w) (requestUrl (OPEN_LIBRARY_URL env) options) = Inr r"
    and "ok r"
    and "json_search env (body r) = Inr data"
  shows "\<exists>result w'.
           browseBooks env options w = (Inr result, w')
         \<and> books result = filter (\<lambda>doc. book_key doc \<noteq> None \<and> book_key doc \<noteq> Some []) (docs data)
         \<and> total result = numFound data
         \<and> storage w' = (storage w)(''browse_'' @ requestUrl (OPEN_LIBRARY_URL env) options
                                      \<mapsto> JSON_stringify env result)
         \<and> new_events w w' =
             [Fetch (requestUrl (OPEN_LIBRARY_URL env) options),
              SetItem (''browse_'' @ requestUrl (OPEN_LIBRARY_URL env) options)
                (JSON_stringify env result)]"
  using assms
  by (simp add: browseBooks_try_catch browse_try_cases truthy_iff cacheKey_def
      storage_emit trace_emit trace_after_fetch new_events_def)

theorem browseBooks_success_witness:
  "\<exists>result w'.
      browseBooks (example_env (answering 200) dune) dune_options fresh_world = (Inr result, w')
    \<and> books result = [dune] \<and> total result = 3
    \<and> storage w' (''browse_'' @ requestUrl ''https://openlibrary.org'' dune_options)
        = Some ''cached''"
  using browseBooks_success[of "example_env (answering 200) dune" fresh_world dune_options
      "\<lparr>status = 200, body = ''{}''\<rparr>"
      "\<lparr>docs = [dune, dune\<lparr>book_key := None\<rparr>, dune\<lparr>book_key := Some []\<rparr>], numFound = 3\<rparr>"]
  by (auto simp: example_env_def answering_def ok_def dune_def)

subsection \<open>browseBooks: a failed fetch\<close>




subsection \<open>browseBooks: the request URL and the cache key\<close>

text \<open>
  Claim C9. \<open>requestUrl\<close> and \<open>cacheKey\<close> are functions of the base URL and the options
  alone, and they are what a call uses, whatever the state of the session. Two calls with
  the same options, started in any two worlds \<open>w1\<close> and \<open>w2\<close> (whether they succeed or
  fail), fetch the same URL, character for character, and touch the session storage under
  the same single key, \<^verbatim>\<open>browse_\<close> followed by that URL: the successful call writes
  under it, the failed call reads under it. No entry under any other key is changed.
\<close>

theorem browseBooks_same_options_same_key:
  "fetched_urls (new_events w1 (snd (browseBooks env options w1)))
     = [requestUrl (OPEN_LIBRARY_URL env) options]
 \<and> fetched_urls (new_events w2 (snd (browseBooks env options w2)))
     = [requestUrl (OPEN_LIBRARY_URL env) options]
 \<and> storage_keys (new_events w1 (snd (browseBooks env options w1)))
     = [''browse_'' @ requestUrl (OPEN_LIBRARY_URL env) options]
 \<and> storage_keys (new_events w2 (snd (browseBooks env options w2)))
     = [''browse_'' @ requestUrl (OPEN_LIBRARY_URL env) options]
 \<and> storage (snd (browseBooks env options w1))
     = (storage w1)(''browse_'' @ requestUrl (OPEN_LIBRARY_URL env) options
                     := storage (snd (browseBooks env options w1))
                          (''browse_'' @ requestUrl (OPEN_LIBRARY_URL env) options))"
proof -
  have ev: "fetched_urls (new_events w (snd (browseBooks env options w)))
              = [requestUrl (OPEN_LIBRARY_URL env) options]
          \<and> storage_keys (new_events w (snd (browseBooks env options w)))
              = [''browse_'' @ requestUrl (OPEN_LIBRARY_URL env) options]" for w
    using browseBooks_trace[of env options w]
    by (auto simp: new_events_def cacheKey_def)
  have "storage (snd (browseBooks env options w1)) k
          = ((storage w1)(''browse_'' @ requestUrl (OPEN_LIBRARY_URL env) options
                     := storage (snd (browseBooks env options w1))
                          (''browse_'' @ requestUrl (OPEN_LIBRARY_URL env) options))) k" for k
    using browseBooks_storage_frame[of k env options w1] by (simp add: cacheKey_def)
  then have "storage (snd (browseBooks env options w1))
          = (storage w1)(''browse_'' @ requestUrl (OPEN_LIBRARY_URL env) options
                     := storage (snd (browseBooks env options w1))
                          (''browse_'' @ requestUrl (OPEN_LIBRARY_URL env) options))"
    by blast
  with ev[of w1] ev[of w2] show ?thesis by blast
qed

subsection \<open>browseBooks: numbers, parameters and the offset\<close>

lemma nat_toString_small: "n < 10 \<Longrightarrow> nat_toString n = [digit_char n]"
  by (subst nat_toString.simps) simp

lemma nat_toString_large:
  "\<not> n < 10 \<Longrightarrow> nat_toString n = nat_toString (n div 10) @ [digit_char (n mod 10)]"
  by (subst nat_toString.simps) simp

lemma foldl_sp_append:
  "foldl (\<lambda>sp genre. sp_append n genre sp) sp0 gs = sp0 @ map (\<lambda>g. (n, g)) gs"
  by (induction gs arbitrary: sp0) (simp_all add: sp_append_def)

lemma sp_set_fresh: "n \<notin> fst ` set ps \<Longrightarrow> sp_set n v ps = ps @ [(n, v)]"
  by (simp add: sp_set_def)

lemma of_char_digit: "d < 10 \<Longrightarrow> (of_char (digit_char d) :: nat) = 48 + d"
  by (simp add: digit_char_def)

lemma form_safe_digit: "d < 10 \<Longrightarrow> form_safe (digit_char d)"
  by (simp add: form_safe_def of_char_digit)

lemma digit_not_space: "d < 10 \<Longrightarrow> digit_char d \<noteq> CHR '' ''"
proof
  assume "d < 10" and "digit_char d = CHR '' ''"
  then have "(of_char (digit_char d) :: nat) = of_char CHR '' ''" by simp
  with \<open>d < 10\<close> show False by (simp add: of_char_digit)
qed

lemma form_encode_digit: "d < 10 \<Longrightarrow> form_encode_byte (digit_char d) = [digit_char d]"
  by (simp add: form_encode_byte_def form_safe_digit digit_not_space)

lemma form_encode_append: "form_encode (xs @ ys) = form_encode xs @ form_encode ys"
  by (simp add: form_encode_def)

lemma form_encode_nat: "form_encode (nat_toString n) = nat_toString n"
proof (induction n rule: nat_toString.induct)
  case (1 n)
  show ?case
  proof (cases "n < 10")
    case True
    then show ?thesis
      by (simp add: nat_toString_small form_encode_def form_encode_digit)
  next
    case False
    have "n mod 10 < 10" by simp
    with False 1 show ?thesis
      by (simp add: nat_toString_large form_encode_append)
         (simp add: form_encode_def form_encode_digit)
  qed
qed

lemma form_encode_decimal: "form_encode (decimal i) = decimal i"
proof -
  have "form_encode (CHR ''-'' # s) = CHR ''-'' # form_encode s" for s
    by (simp add: form_encode_def form_encode_byte_def form_safe_def)
  then show ?thesis by (simp add: decimal_def form_encode_nat)
qed

text \<open>The decimal text determines the number.\<close>

lemma nat_toString_value:
  "foldl (\<lambda>a c. 10 * a + digit_value c) 0 (nat_toString n) = n"
proof (induction n rule: nat_toString.induct)
  case (1 n)
  show ?case
  proof (cases "n < 10")
    case True
    then show ?thesis
      by (simp add: nat_toString_small digit_value_def of_char_digit)
  next
    case False
    have "n mod 10 < 10" by simp
    with False 1 show ?thesis
      by (simp add: nat_toString_large digit_value_def of_char_digit)
  qed
qed

lemma nat_toString_inj: "nat_toString m = nat_toString n \<Longrightarrow> m = n"
  by (metis nat_toString_value)

lemma nat_toString_hd: "\<exists>d cs. d < 10 \<and> nat_toString n = digit_char d # cs"
proof (induction n rule: nat_toString.induct)
  case (1 n)
  show ?case
  proof (cases "n < 10")
    case True
    then show ?thesis by (auto simp: nat_toString_small)
  next
    case False
    with 1 obtain d cs where "d < 10" "nat_toString (n div 10) = digit_char d # cs" by blast
    with False show ?thesis by (auto simp: nat_toString_large)
  qed
qed

lemma digit_not_minus: "d < 10 \<Longrightarrow> digit_char d \<noteq> CHR ''-''"
proof
  assume "d < 10" and "digit_char d = CHR ''-''"
  then have "(of_char (digit_char d) :: nat) = of_char CHR ''-''" by simp
  with \<open>d < 10\<close> show False by (simp add: of_char_digit)
qed

lemma decimal_inj: "decimal i = decimal j \<Longrightarrow> i = j"
proof -
  assume eq: "decimal i = decimal j"
  have no_minus: "nat_toString n \<noteq> CHR ''-'' # s" for n s
  proof
    assume a: "nat_toString n = CHR ''-'' # s"
    obtain d cs where "d < 10" "nat_toString n = digit_char d # cs"
      using nat_toString_hd[of n] by blast
    with a have "digit_char d = CHR ''-''" by simp
    with \<open>d < 10\<close> digit_not_minus show False by blast
  qed
  have no_minus': "CHR ''-'' # s \<noteq> nat_toString n" for n s
    using no_minus[of n s] by (rule not_sym)
  show "i = j"
  proof (cases "i < 0")
    case True
    have "j < 0"
    proof (rule ccontr)
      assume "\<not> j < 0"
      with True eq have "CHR ''-'' # nat_toString (nat (- i)) = nat_toString (nat j)"
        by (simp add: decimal_def)
      with no_minus' show False by blast
    qed
    with True eq have "nat_toString (nat (- i)) = nat_toString (nat (- j))"
      by (simp add: decimal_def)
    then have "nat (- i) = nat (- j)" by (rule nat_toString_inj)
    with True \<open>j < 0\<close> show ?thesis by simp
  next
    case False
    have "\<not> j < 0"
    proof
      assume "j < 0"
      with False eq have "nat_toString (nat i) = CHR ''-'' # nat_toString (nat (- j))"
        by (simp add: decimal_def)
      with no_minus show False by blast
    qed
    with False eq have "nat_toString (nat i) = nat_toString (nat j)"
      by (simp add: decimal_def)
    then have "nat i = nat j" by (rule nat_toString_inj)
    with False \<open>\<not> j < 0\<close> show ?thesis by simp
  qed
qed

text \<open>Doubles: rounding is exact below \<open>2^53\<close>, and \<^verbatim>\<open>toString\<close> then prints all digits.\<close>

lemma bit_length_bounds:
  "0 < x \<Longrightarrow> 2 ^ (bit_length x - 1) \<le> x \<and> x < 2 ^ bit_length x"
proof (induction x rule: bit_length.induct)
  case (1 n)
  show ?case
  proof (cases "n div 2 = 0")
    case True
    with 1(2) have "n = Suc 0" by (simp add: div_eq_0_iff)
    moreover have "bit_length (Suc 0) = Suc 0"
      by (simp add: bit_length.simps[of "Suc 0"] bit_length.simps[of 0])
    ultimately show ?thesis by simp
  next
    case False
    then have pos: "0 < n div 2" by simp
    with 1 have ih: "2 ^ (bit_length (n div 2) - 1) \<le> n div 2" "n div 2 < 2 ^ bit_length (n div 2)"
      by auto
    have b: "bit_length n = Suc (bit_length (n div 2))"
      using 1(2) by (subst bit_length.simps) simp
    have "0 < bit_length (n div 2)"
      using pos by (subst bit_length.simps) simp
    then have "(2::nat) ^ bit_length (n div 2) = 2 * 2 ^ (bit_length (n div 2) - 1)"
      by (cases "bit_length (n div 2)") simp_all
    with ih(1) have lo: "2 ^ bit_length (n div 2) \<le> n" by linarith
    from ih(2) have hi: "n < 2 * 2 ^ bit_length (n div 2)" by linarith
    from lo hi show ?thesis by (simp add: b)
  qed
qed

lemma round_nat_small: "x < 2 ^ 53 \<Longrightarrow> round_nat x = x"
  by (simp add: round_nat_def)

lemma round_nat_large:
  assumes "2 ^ 53 \<le> x"
  shows "2 ^ 53 \<le> round_nat x"
proof -
  define e where "e = bit_length x - 53"
  define q where "q = x div 2 ^ e"
  have pos: "0 < x" using assms by (simp add: order_less_le_trans[of 0 "2 ^ 53"])
  have lo: "2 ^ (bit_length x - 1) \<le> x" and hi: "x < 2 ^ bit_length x"
    using bit_length_bounds[OF pos] by simp_all
  have "(2::nat) ^ 53 < 2 ^ bit_length x" using assms hi by linarith
  then have b: "53 < bit_length x" by (rule power_less_imp_less_exp[rotated]) simp
  then have e1: "1 \<le> e" and be: "bit_length x - 1 = 52 + e" by (simp_all add: e_def)
  have pw: "(2::nat) ^ (bit_length x - 1) = 2 ^ 52 * 2 ^ e" by (simp only: be power_add)
  have "(2::nat) ^ 52 * 2 ^ e \<le> x" using lo unfolding pw .
  then have q52: "2 ^ 52 \<le> q"
    by (simp add: q_def less_eq_div_iff_mult_less_eq)
  have "(2::nat) * 1 \<le> 2 ^ e * 1" using e1
    by (metis mult.right_neutral power_increasing power_one_right one_le_numeral)
  then have e2: "(2::nat) \<le> 2 ^ e" by simp
  have "(2::nat) ^ 53 = 2 ^ 52 * 2" by simp
  also have "\<dots> \<le> q * 2 ^ e" using q52 e2 by (rule mult_le_mono)
  finally have down: "2 ^ 53 \<le> q * 2 ^ e" .
  then have up: "2 ^ 53 \<le> (q + 1) * 2 ^ e" by (simp add: add_mult_distrib)
  from assms down up show ?thesis
    by (simp add: round_nat_def Let_def e_def[symmetric] q_def[symmetric])
qed

lemma fl_exact:
  assumes "y < 2 ^ 53" and "fl (int v) = Num (int y)"
  shows "v = y"
proof -
  have r: "round_nat v = y"
    using assms(2) by (simp add: fl_def Let_def split: if_splits)
  have "v < 2 ^ 53"
  proof (rule ccontr)
    assume "\<not> v < 2 ^ 53"
    then have "2 ^ 53 \<le> v" by simp
    then have "2 ^ 53 \<le> round_nat v" by (rule round_nat_large)
    with r assms(1) show False by simp
  qed
  with r show ?thesis by (simp add: round_nat_small)
qed

lemma fl_small: "\<bar>x\<bar> < 2 ^ 53 \<Longrightarrow> fl x = Num x"
proof -
  assume a: "\<bar>x\<bar> < 2 ^ 53"
  then have "nat \<bar>x\<bar> < 2 ^ 53" by (simp add: nat_less_iff)
  then have r: "round_nat (nat \<bar>x\<bar>) = nat \<bar>x\<bar>" by (rule round_nat_small)
  have "nat \<bar>x\<bar> < 2 ^ 1024"
    using \<open>nat \<bar>x\<bar> < 2 ^ 53\<close> by (rule less_le_trans) simp
  then show ?thesis by (simp add: fl_def r Let_def)
qed

lemma digit_char_0: "digit_char 0 = CHR ''0''"
  by (simp add: digit_char_def char_of_eq_iff)

lemma nat_toString_times_10: "0 < s \<Longrightarrow> nat_toString (s * 10) = nat_toString s @ ''0''"
  by (simp add: nat_toString_large digit_char_0)

lemma nat_toString_shift:
  "0 < s \<Longrightarrow> nat_toString (s * 10 ^ m) = nat_toString s @ replicate m CHR ''0''"
proof (induction m)
  case 0
  then show ?case by simp
next
  case (Suc m)
  have "nat_toString (s * 10 ^ Suc m) = nat_toString ((s * 10 ^ m) * 10)"
    by (simp add: ac_simps)
  also have "\<dots> = nat_toString (s * 10 ^ m) @ ''0''"
    using Suc.prems by (intro nat_toString_times_10) simp
  also have "\<dots> = nat_toString s @ replicate (Suc m) CHR ''0''"
    using Suc by (simp add: replicate_append_same)
  finally show ?case .
qed

lemma length_nat_toString:
  "0 < length (nat_toString y) \<and> y < 10 ^ length (nat_toString y)
   \<and> (0 < y \<longrightarrow> 10 ^ (length (nat_toString y) - 1) \<le> y)"
proof (induction y rule: nat_toString.induct)
  case (1 n)
  show ?case
  proof (cases "n < 10")
    case True
    then show ?thesis by (simp add: nat_toString_small)
  next
    case False
    with 1 have ih: "0 < length (nat_toString (n div 10))"
        "n div 10 < 10 ^ length (nat_toString (n div 10))"
        "10 ^ (length (nat_toString (n div 10)) - 1) \<le> n div 10"
      by auto
    have l: "length (nat_toString n) = Suc (length (nat_toString (n div 10)))"
      using False by (simp add: nat_toString_large)
    from ih(2) have hi: "n < 10 * 10 ^ length (nat_toString (n div 10))" by linarith
    have "(10::nat) ^ length (nat_toString (n div 10))
            = 10 * 10 ^ (length (nat_toString (n div 10)) - 1)"
      using ih(1) by (cases "length (nat_toString (n div 10))") simp_all
    with ih(3) have lo: "10 ^ length (nat_toString (n div 10)) \<le> n" by linarith
    from hi lo show ?thesis by (simp add: l)
  qed
qed

lemma candidates_mem:
  "(s, n) \<in> set (candidates x k) \<Longrightarrow>
   k \<le> n \<and> 10 ^ (k - 1) \<le> s \<and> fl (int (s * 10 ^ (n - k))) = Num (int x)
   \<and> n \<le> Suc (length (nat_toString x))"
  by (auto simp: candidates_def split: if_splits)

lemma candidates_full:
  assumes "0 < y" and "y < 2 ^ 53"
  shows "(y, length (nat_toString y)) \<in> set (candidates y (length (nat_toString y)))"
proof -
  have "fl (int y) = Num (int y)" using assms(2) by (intro fl_small) simp
  moreover have "10 ^ (length (nat_toString y) - 1) \<le> y" "y < 10 ^ length (nat_toString y)"
    using length_nat_toString[of y] assms(1) by simp_all
  ultimately show ?thesis by (simp add: candidates_def)
qed

lemma foldl_closer_mem: "foldl (closer x k) c cs \<in> set (c # cs)"
proof (induction cs arbitrary: c)
  case Nil
  then show ?case by simp
next
  case (Cons a cs)
  have "closer x k c a = c \<or> closer x k c a = a" by (simp add: closer_def)
  with Cons[of "closer x k c a"] show ?case by auto
qed

lemma pos_toString_safe:
  assumes "0 < y" and "y < 2 ^ 53"
  shows "pos_toString y = nat_toString y"
proof -
  let ?d = "length (nat_toString y)"
  have d1: "1 \<le> ?d" using length_nat_toString[of y] by (simp add: Suc_le_eq)
  have "10 ^ (?d - 1) \<le> y" using length_nat_toString[of y] assms(1) by simp
  also have "y < 10 ^ 16" using assms(2) by simp
  finally have "(10::nat) ^ (?d - 1) < 10 ^ 16" .
  then have "?d - 1 < 16" by (rule power_less_imp_less_exp[rotated]) simp
  with d1 have d: "?d \<in> set [1 ..< 18]" by simp
  have "candidates y ?d \<noteq> []" using candidates_full[OF assms] by auto
  with d have "find (\<lambda>k. candidates y k \<noteq> []) [1 ..< 18] \<noteq> None"
    unfolding find_None_iff by blast
  then obtain k where f: "find (\<lambda>k. candidates y k \<noteq> []) [1 ..< 18] = Some k" by blast
  then have "candidates y k \<noteq> []" by (auto simp: find_Some_iff)
  then obtain c cs where cs: "candidates y k = c # cs" by (cases "candidates y k") auto
  obtain s n where sn: "foldl (closer y k) c cs = (s, n)" by (cases "foldl (closer y k) c cs")
  have "(s, n) \<in> set (candidates y k)"
    using foldl_closer_mem[of y k c cs] by (simp add: cs sn)
  then have m: "k \<le> n" "10 ^ (k - 1) \<le> s" "fl (int (s * 10 ^ (n - k))) = Num (int y)"
      "n \<le> Suc ?d"
    using candidates_mem by blast+
  have v: "s * 10 ^ (n - k) = y" using assms(2) m(3) by (rule fl_exact)
  have "0 < s" using m(2) by (simp add: order_less_le_trans[of 0 "10 ^ (k - 1)"])
  then have "nat_toString s @ replicate (n - k) CHR ''0'' = nat_toString y"
    using nat_toString_shift[of s "n - k"] v by simp
  moreover have "n \<le> 21" using m(4) \<open>?d - 1 < 16\<close> by simp
  moreover have "pos_toString y = format_digits k s n"
    unfolding pos_toString_def f by (simp add: cs sn)
  ultimately show ?thesis
    by (simp add: format_digits_def)
qed

lemma toString_safe: "\<bar>i\<bar> < 2 ^ 53 \<Longrightarrow> toString (Num i) = decimal i"
proof -
  assume a: "\<bar>i\<bar> < 2 ^ 53"
  have zero: "nat_toString 0 = ''0''" by (simp add: nat_toString_small digit_char_0)
  show ?thesis
  proof (cases "i = 0")
    case True
    then show ?thesis by (simp add: toString_def decimal_def zero)
  next
    case False
    show ?thesis
    proof (cases "i < 0")
      case True
      with a have "0 < nat (- i)" "nat (- i) < 2 ^ 53" by (simp_all add: nat_less_iff)
      then have "pos_toString (nat (- i)) = nat_toString (nat (- i))" by (rule pos_toString_safe)
      with True show ?thesis by (simp add: toString_def decimal_def)
    next
      case nonneg: False
      with False a have "0 < nat i" "nat i < 2 ^ 53" by (simp_all add: nat_less_iff)
      then have "pos_toString (nat i) = nat_toString (nat i)" by (rule pos_toString_safe)
      with False nonneg show ?thesis by (simp add: toString_def decimal_def)
    qed
  qed
qed

lemma digit_chars:
  "digit_char 0 = CHR ''0''" "digit_char (Suc 0) = CHR ''1''" "digit_char 2 = CHR ''2''"
  "digit_char 3 = CHR ''3''" "digit_char 4 = CHR ''4''" "digit_char 5 = CHR ''5''"
  "digit_char 6 = CHR ''6''" "digit_char 7 = CHR ''7''" "digit_char 8 = CHR ''8''"
  "digit_char 9 = CHR ''9''"
  by (simp_all add: digit_char_def char_of_eq_iff)

text \<open>
  The offset the code computes when the page number, the page size and their product
  are integers that doubles hold exactly.
\<close>

lemma offset_of_safe:
  assumes "fl p = Num p" and "fl L = Num L" and "1 \<le> p" and "1 \<le> L"
    and "(p - 1) * L \<le> 2 ^ 53 - 1"
  shows "offset_of (options\<lparr>limit := Some L, page := Some p\<rparr>) = Num ((p - 1) * L)"
proof -
  have "p - 1 \<le> (p - 1) * L" using assms(3,4) by (simp add: mult_le_cancel_left1)
  with assms(3,5) have "\<bar>p - 1\<bar> < 2 ^ 53" by simp
  then have m: "fl (p - 1) = Num (p - 1)" by (rule fl_small)
  have "0 \<le> (p - 1) * L" using assms(3,4) by simp
  with assms(5) have "\<bar>(p - 1) * L\<bar> < 2 ^ 53" by simp
  then have t: "fl ((p - 1) * L) = Num ((p - 1) * L)" by (rule fl_small)
  show ?thesis by (simp add: offset_of_def page_of_def limit_of_def assms(1,2) m t)
qed

lemma offset_of_default:
  "offset_of (options\<lparr>limit := None, page := None\<rparr>) = Num 0"
proof -
  have "fl 1 = Num 1" "fl 40 = Num 40" "fl 0 = Num 0" by (simp_all add: fl_small)
  then show ?thesis by (simp add: offset_of_def page_of_def limit_of_def)
qed

text \<open>The parameters in closed form, and the query string they serialise to.\<close>

lemma front_names:
  "fst ` set (front_params options) \<subseteq> {''q'', ''subject'', ''publish_year'', ''sort''}"
  by (auto simp: front_params_def split: option.splits if_splits)

lemma q_params: "sp_set ''q'' v [] = [(''q'', v)]"
  by (simp add: sp_set_def)

lemma searchParams_eq:
  "searchParams options = front_params options @
     [(''offset'', toString (offset_of options)), (''language'', ''eng''),
      (''limit'', toString (limit_of options)),
      (''fields'', ''key,title,author_name,cover_i,first_publish_year'')]"
proof -
  define v where "v = (if truthy (query options) then the (query options) else ''*'')"
  define sp1 where "sp1 = [(''q'', v)] @ (case genres options of None \<Rightarrow> [] | Some gs \<Rightarrow> map (\<lambda>g. (''subject'', g)) gs)"
  define sp2 where "sp2 = sp1 @ (if truthy (year options) then [(''publish_year'', the (year options))] else [])"
  define sp3 where "sp3 = sp2 @ (if truthy (sort_by options) \<and> sort_by options \<noteq> Some ''relevance''
        then [(''sort'', the (sort_by options))] else [])"
  have n1: "fst ` set sp1 \<subseteq> {''q'', ''subject''}"
    by (auto simp: sp1_def split: option.splits)
  have n2: "fst ` set sp2 \<subseteq> {''q'', ''subject'', ''publish_year''}"
    using n1 by (auto simp: sp2_def)
  have n3: "fst ` set sp3 \<subseteq> {''q'', ''subject'', ''publish_year'', ''sort''}"
    using n2 by (auto simp: sp3_def)
  have e1: "(case genres options of
                   None \<Rightarrow> sp_set ''q'' v []
                 | Some gs \<Rightarrow> if length gs > 0 then foldl (\<lambda>sp genre. sp_append ''subject'' genre sp) (sp_set ''q'' v []) gs
                             else sp_set ''q'' v []) = sp1"
    by (simp add: sp1_def q_params foldl_sp_append split: option.splits)
  have e2: "(if truthy (year options) then sp_set ''publish_year'' (the (year options)) sp1 else sp1) = sp2"
    using n1 by (auto simp: sp2_def intro!: sp_set_fresh)
  have e3: "(if truthy (sort_by options) \<and> sort_by options \<noteq> Some ''relevance''
                 then sp_set ''sort'' (the (sort_by options)) sp2 else sp2) = sp3"
    using n2 by (auto simp: sp3_def intro!: sp_set_fresh)
  have e4: "sp_set ''offset'' a sp3 = sp3 @ [(''offset'', a)]" for a
    using n3 by (auto intro!: sp_set_fresh)
  have e5: "sp_set ''language'' b (sp3 @ [(''offset'', a)]) = sp3 @ [(''offset'', a), (''language'', b)]" for a b
    using n3 by (subst sp_set_fresh) auto
  have e6: "sp_set ''limit'' c (sp3 @ [(''offset'', a), (''language'', b)]) = sp3 @ [(''offset'', a), (''language'', b), (''limit'', c)]" for a b c
    using n3 by (subst sp_set_fresh) auto
  have e7: "sp_set ''fields'' d (sp3 @ [(''offset'', a), (''language'', b), (''limit'', c)]) = sp3 @ [(''offset'', a), (''language'', b), (''limit'', c), (''fields'', d)]" for a b c d
    using n3 by (subst sp_set_fresh) auto
  have f: "front_params options = sp3"
    by (simp add: front_params_def sp3_def sp2_def sp1_def v_def)
  show ?thesis
    unfolding searchParams_def Let_def v_def[symmetric] e1 e2 e3 e4 e5 e6 e7 f ..
qed

lemma offset_not_front: "map_of (front_params options) ''offset'' = None"
proof -
  have "''offset'' \<notin> fst ` set (front_params options)"
    using front_names[of options] by auto
  then show ?thesis by (simp add: map_of_eq_None_iff)
qed

lemma sp_get_offset:
  "sp_get ''offset'' (searchParams options) = Some (toString (offset_of options))"
  by (simp add: searchParams_eq sp_get_def map_add_def offset_not_front)

lemma join_amp_append:
  "xs \<noteq> [] \<Longrightarrow> ys \<noteq> [] \<Longrightarrow> join_amp (xs @ ys) = join_amp xs @ ''&'' @ join_amp ys"
proof (induction xs rule: join_amp.induct)
  case 1
  then show ?case by simp
next
  case (2 x)
  then show ?case by (cases ys) simp_all
next
  case (3 x y zs)
  then show ?case by simp
qed

lemma front_nonempty: "front_params options \<noteq> []"
  by (simp add: front_params_def)

lemma encoded_names:
  "form_encode ''offset'' = ''offset''" "form_encode ''language'' = ''language''"
  "form_encode ''eng'' = ''eng''" "form_encode ''limit'' = ''limit''"
  "form_encode ''fields'' = ''fields''"
  "form_encode ''key,title,author_name,cover_i,first_publish_year''
     = ''key%2Ctitle%2Cauthor_name%2Ccover_i%2Cfirst_publish_year''"
  by (simp_all add: form_encode_def form_encode_byte_def form_safe_def hex_digit_def
      char_of_eq_iff)

lemma sp_toString_searchParams:
  "sp_toString (searchParams options) =
     sp_toString (front_params options)
       @ ''&offset='' @ form_encode (toString (offset_of options))
       @ ''&language=eng&limit='' @ form_encode (toString (limit_of options))
       @ ''&fields=key%2Ctitle%2Cauthor_name%2Ccover_i%2Cfirst_publish_year''"
  by (simp add: searchParams_eq sp_toString_def join_amp_append front_nonempty
      encoded_names)

text \<open>
  Claim C7, amended. Let the page number \<open>p \<ge> 1\<close> and the page size \<open>L \<ge> 1\<close> be
  integers that are JavaScript numbers (\<open>fl\<close> leaves them as they are), with
  \<open>(p - 1) * L\<close> at most \<open>2^53 - 1\<close>, the largest safe integer. Then the
  \<^verbatim>\<open>offset\<close> parameter that \<^verbatim>\<open>browseBooks\<close> sets is the decimal text of
  \<open>(p - 1) * L\<close>, and the request URL carries it as \<^verbatim>\<open>&offset=\<close> followed by that
  text, right before the language, the limit and the field list. With the defaults (no
  page, no limit: page 1, limit 40) the parameter is \<^verbatim>\<open>0\<close>. By \<open>decimal_inj\<close>
  above the text determines the number.
\<close>

theorem offset_parameter:
  assumes "fl p = Num p" and "fl L = Num L" and "1 \<le> p" and "1 \<le> L"
    and "(p - 1) * L \<le> 2 ^ 53 - 1"
  shows "sp_get ''offset'' (searchParams (options\<lparr>limit := Some L, page := Some p\<rparr>))
           = Some (decimal ((p - 1) * L))
       \<and> requestUrl base (options\<lparr>limit := Some L, page := Some p\<rparr>)
           = base @ ''/search.json?'' @ sp_toString (front_params options)
               @ ''&offset='' @ decimal ((p - 1) * L)
               @ ''&language=eng&limit='' @ form_encode (toString (Num L))
               @ ''&fields=key%2Ctitle%2Cauthor_name%2Ccover_i%2Cfirst_publish_year''
       \<and> sp_get ''offset'' (searchParams (options\<lparr>limit := None, page := None\<rparr>))
           = Some ''0''"
proof -
  have front: "front_params (options\<lparr>limit := Some L, page := Some p\<rparr>) = front_params options"
    by (simp add: front_params_def)
  have off: "offset_of (options\<lparr>limit := Some L, page := Some p\<rparr>) = Num ((p - 1) * L)"
    using assms by (rule offset_of_safe)
  have "0 \<le> (p - 1) * L" using assms(3,4) by simp
  with assms(5) have "\<bar>(p - 1) * L\<bar> < 2 ^ 53" by simp
  then have dec: "toString (Num ((p - 1) * L)) = decimal ((p - 1) * L)"
    by (rule toString_safe)
  have lmt: "limit_of (options\<lparr>limit := Some L, page := Some p\<rparr>) = Num L"
    by (simp add: limit_of_def assms(2))
  have 1: "sp_get ''offset'' (searchParams (options\<lparr>limit := Some L, page := Some p\<rparr>))
             = Some (decimal ((p - 1) * L))"
    by (simp add: sp_get_offset off dec)
  have 2: "requestUrl base (options\<lparr>limit := Some L, page := Some p\<rparr>)
             = base @ ''/search.json?'' @ sp_toString (front_params options)
                 @ ''&offset='' @ decimal ((p - 1) * L)
                 @ ''&language=eng&limit='' @ form_encode (toString (Num L))
                 @ ''&fields=key%2Ctitle%2Cauthor_name%2Ccover_i%2Cfirst_publish_year''"
    by (simp add: requestUrl_def sp_toString_searchParams front off dec lmt
        form_encode_decimal)
  have 3: "sp_get ''offset'' (searchParams (options\<lparr>limit := None, page := None\<rparr>))
             = Some ''0''"
    by (simp add: sp_get_offset offset_of_default toString_def)
  from 1 2 3 show ?thesis by (intro conjI)
qed

text \<open>Page 3 of size 40 starts at offset 80.\<close>

theorem offset_parameter_witness:
  "sp_get ''offset'' (searchParams (dune_options\<lparr>limit := Some 40, page := Some 3\<rparr>))
     = Some ''80''
 \<and> requestUrl ''https://openlibrary.org'' (dune_options\<lparr>limit := Some 40, page := Some 3\<rparr>)
     = ''https://openlibrary.org/search.json?q=dune&offset=80&language=eng&limit=40''
         @ ''&fields=key%2Ctitle%2Cauthor_name%2Ccover_i%2Cfirst_publish_year''"
proof -
  have n: "fl 3 = Num 3" "fl 40 = Num 40" by (simp_all add: fl_small)
  have d: "decimal 80 = ''80''" "decimal 40 = ''40''"
    by (simp_all add: decimal_def nat_toString.simps[of 80] nat_toString.simps[of 8]
        nat_toString.simps[of 40] nat_toString.simps[of 4] digit_chars)
  have l: "toString (Num 40) = decimal 40" by (rule toString_safe) simp
  have f: "sp_toString (front_params dune_options) = ''q=dune''"
    by (simp add: front_params_def dune_options_def truthy_def sp_toString_def
        form_encode_def form_encode_byte_def form_safe_def)
  have e: "form_encode ''40'' = ''40''"
    by (simp add: form_encode_def form_encode_byte_def form_safe_def)
  note t = offset_parameter[of 3 40 dune_options "''https://openlibrary.org''", OF n]
  have 1: "sp_get ''offset'' (searchParams (dune_options\<lparr>limit := Some 40, page := Some 3\<rparr>))
             = Some ''80''"
    using t[THEN conjunct1] by (simp add: d)
  have 2: "requestUrl ''https://openlibrary.org''
             (dune_options\<lparr>limit := Some 40, page := Some 3\<rparr>)
           = ''https://openlibrary.org/search.json?q=dune&offset=80&language=eng&limit=40''
               @ ''&fields=key%2Ctitle%2Cauthor_name%2Ccover_i%2Cfirst_publish_year''"
    using t[THEN conjunct2, THEN conjunct1] by (simp add: d l f e)
  from 1 2 show ?thesis by (intro conjI)
qed

text \<open>
  The counterexample to C7 as the specification states it. Page 94906268 of size
  94906267 has \<open>(p - 1) * L = 9007199515875289\<close>, which is above \<open>2^53\<close> and odd:
  no double holds it, the product rounds to the even neighbour, and the parameter
  sent is \<^verbatim>\<open>9007199515875288\<close>. Page 100000000001 of size 10000000000 has
  \<open>(p - 1) * L = 10^21\<close>, which a double holds, and the parameter sent is
  \<^verbatim>\<open>1e+21\<close>, in the URL \<^verbatim>\<open>offset=1e%2B21\<close>, not the 22 digits.
\<close>

theorem offset_parameter_counterexample:
  "fl 94906268 = Num 94906268 \<and> fl 94906267 = Num 94906267
 \<and> sp_get ''offset'' (searchParams (dune_options\<lparr>limit := Some 94906267, page := Some 94906268\<rparr>))
     = Some ''9007199515875288''
 \<and> decimal ((94906268 - 1) * 94906267) = ''9007199515875289''
 \<and> fl 100000000001 = Num 100000000001 \<and> fl 10000000000 = Num 10000000000
 \<and> sp_get ''offset''
       (searchParams (dune_options\<lparr>limit := Some 10000000000, page := Some 100000000001\<rparr>))
     = Some ''1e+21''
 \<and> form_encode ''1e+21'' = ''1e%2B21''
 \<and> decimal ((100000000001 - 1) * 10000000000) = ''1000000000000000000000''"
proof -
  have n: "fl 94906268 = Num 94906268" "fl 94906267 = Num 94906267"
      "fl 100000000001 = Num 100000000001" "fl 10000000000 = Num 10000000000"
    by (simp_all add: fl_small)
  have r1: "fl (94906267 * 94906267) = Num 9007199515875288"
    by (simp add: fl_def round_nat_def Let_def bit_length.simps)
  have r2: "fl (100000000000 * 10000000000) = Num 1000000000000000000000"
    by (simp add: fl_def round_nat_def Let_def bit_length.simps)
  have o1: "offset_of (dune_options\<lparr>limit := Some 94906267, page := Some 94906268\<rparr>)
              = Num 9007199515875288"
    using r1 by (simp add: offset_of_def page_of_def limit_of_def n)
  have m: "fl 100000000000 = Num 100000000000" by (simp add: fl_small)
  have o2: "offset_of (dune_options\<lparr>limit := Some 10000000000, page := Some 100000000001\<rparr>)
              = Num 1000000000000000000000"
    using r2 by (simp add: offset_of_def page_of_def limit_of_def n m)
  have len1: "length (nat_toString 9007199515875288) = 16"
    by (simp add: nat_toString.simps)
  have dig1: "nat_toString 9007199515875288 = ''9007199515875288''"
    by (simp add: nat_toString.simps digit_chars)
  have p1: "pos_toString 9007199515875288 = ''9007199515875288''"
    unfolding pos_toString_def
    by (simp add: upt_rec candidates_def len1 fl_def round_nat_def Let_def closer_def
        distance_def format_digits_def dig1 bit_length.simps)
  have len2: "length (nat_toString 1000000000000000000000) = 22"
    by (simp add: nat_toString.simps)
  have dig2: "nat_toString (Suc 0) = ''1''" "nat_toString 21 = ''21''"
    by (simp_all add: nat_toString.simps digit_chars)
  have p2: "pos_toString 1000000000000000000000 = ''1e+21''"
    unfolding pos_toString_def
    by (simp add: upt_rec candidates_def len2 fl_def round_nat_def Let_def closer_def
        distance_def format_digits_def dig2 bit_length.simps)
  have t1: "toString (Num 9007199515875288) = ''9007199515875288''"
    by (simp add: toString_def p1)
  have t2: "toString (Num 1000000000000000000000) = ''1e+21''"
    by (simp add: toString_def p2)
  have 1: "sp_get ''offset''
             (searchParams (dune_options\<lparr>limit := Some 94906267, page := Some 94906268\<rparr>))
           = Some ''9007199515875288''"
    by (simp add: sp_get_offset o1 t1)
  have 2: "decimal ((94906268 - 1) * 94906267) = ''9007199515875289''"
    by (simp add: decimal_def nat_toString.simps digit_chars)
  have 3: "sp_get ''offset''
             (searchParams (dune_options\<lparr>limit := Some 10000000000, page := Some 100000000001\<rparr>))
           = Some ''1e+21''"
    by (simp add: sp_get_offset o2 t2)
  have 4: "form_encode ''1e+21'' = ''1e%2B21''"
    by (simp add: form_encode_def form_encode_byte_def form_safe_def hex_digit_def
        char_of_eq_iff)
  have 5: "decimal ((100000000001 - 1) * 10000000000) = ''1000000000000000000000''"
    by (simp add: decimal_def nat_toString.simps digit_chars)
  from n 1 2 3 4 5 show ?thesis by (intro conjI)
qed

subsection \<open>getBookDetails: the steps, case by case\<close>

lemma edition_step_cases:
  "edition_step env workId data w =
     (case network env (fetches w) (editions_url env workId) of
        Inl e \<Rightarrow> (Inr data, emit (edition_warning workId e) (after_fetch (editions_url env workId) w))
      | Inr r \<Rightarrow>
          if ok r
          then (case json_editions env (body r) of
                  Inl e \<Rightarrow> (Inr data, emit (edition_warning workId e)
                                        (after_fetch (editions_url env workId) w))
                | Inr listing \<Rightarrow>
                    (case entries listing of
                       [] \<Rightarrow> (Inr data, after_fetch (editions_url env workId) w)
                     | ed # _ \<Rightarrow> (Inr (apply_edition ed data), after_fetch (editions_url env workId) w)))
          else (Inr data, after_fetch (editions_url env workId) w))"
  by (simp add: edition_step_def try_catch_def bind_def fetch_cases return_def
      response_json_def console_def edition_warning_def split: sum.splits list.splits)

lemma author_fetch_cases:
  "author_fetch env k data w =
     (case network env (fetches w) (OPEN_LIBRARY_URL env @ k @ ''.json'') of
        Inl e \<Rightarrow> (Inr data, emit (author_warning k e)
                              (after_fetch (OPEN_LIBRARY_URL env @ k @ ''.json'') w))
      | Inr r \<Rightarrow>
          if ok r
          then (case json_author env (body r) of
                  Inl e \<Rightarrow> (Inr data, emit (author_warning k e)
                                        (after_fetch (OPEN_LIBRARY_URL env @ k @ ''.json'') w))
                | Inr a \<Rightarrow>
                    (Inr (data\<lparr>author_name := Some [name a],
                               author_details := Some \<lparr>name = name a, bio = bio a,
                                 birth_date = birth_date a, death_date = death_date a\<rparr>\<rparr>),
                     after_fetch (OPEN_LIBRARY_URL env @ k @ ''.json'') w))
          else (Inr data, after_fetch (OPEN_LIBRARY_URL env @ k @ ''.json'') w))"
  by (simp add: author_fetch_def try_catch_def bind_def fetch_cases return_def
      response_json_def console_def author_warning_def split: sum.splits)

lemma getBookDetails_cases:
  "getBookDetails env workId w =
     (case network env (fetches w) (work_url env workId) of
        Inl e \<Rightarrow> (Inl e, after_fetch (work_url env workId) w)
      | Inr r \<Rightarrow>
          if \<not> ok r
          then (Inl (if status r = 404 then BookNotFoundError workId
                     else FetchError ''Failed to fetch book details from Open Library.''),
                after_fetch (work_url env workId) w)
          else (case json_book env (body r) of
                  Inl e \<Rightarrow> (Inl e, after_fetch (work_url env workId) w)
                | Inr data \<Rightarrow>
                    (case edition_step env workId data (after_fetch (work_url env workId) w) of
                       (Inl e, w1) \<Rightarrow> (Inl e, w1)
                     | (Inr data1, w1) \<Rightarrow> author_step env data1 w1)))"
  by (simp add: getBookDetails_def bind_def fetch_cases throw_def response_json_def
      split: sum.splits)

lemma truthy_first:
  "truthy (opt_first xs) \<longleftrightarrow> (\<exists>x rest. xs = Some (x # rest) \<and> x \<noteq> [])"
  by (auto simp: truthy_def opt_first_def split: option.splits list.splits)

lemma link_for_truthy:
  "truthy (opt_first xs) \<Longrightarrow> link_for prefix xs = Some (prefix @ the (opt_first xs))"
  by (auto simp: truthy_def link_for_def opt_first_def split: option.splits list.splits)

lemma link_for_falsy: "\<not> truthy (opt_first xs) \<Longrightarrow> link_for prefix xs = None"
  by (auto simp: truthy_def link_for_def opt_first_def split: option.splits list.splits)

lemma links_of_eq:
  "links_of ids =
     link_entry ''goodreads'' (link_for ''https://www.goodreads.com/book/show/'' (goodreads ids))
   @ link_entry ''amazon'' (link_for ''https://www.amazon.com/dp/'' (amazon ids))
   @ link_entry ''google'' (link_for ''https://books.google.com/books?id='' (google ids))"
proof (cases "truthy (opt_first (goodreads ids))";
       cases "truthy (opt_first (amazon ids))";
       cases "truthy (opt_first (google ids))")
qed (simp_all add: links_of_def Let_def link_entry_def link_for_truthy link_for_falsy)

lemma links_of_goodreads:
  "map_of (links_of ids) ''goodreads''
     = link_for ''https://www.goodreads.com/book/show/'' (goodreads ids)"
  by (simp add: links_of_eq link_entry_def split: option.splits)

lemma links_of_amazon:
  "map_of (links_of ids) ''amazon'' = link_for ''https://www.amazon.com/dp/'' (amazon ids)"
  by (simp add: links_of_eq link_entry_def split: option.splits)

lemma links_of_google:
  "map_of (links_of ids) ''google''
     = link_for ''https://books.google.com/books?id='' (google ids)"
  by (simp add: links_of_eq link_entry_def split: option.splits)

lemma links_of_keys:
  "set (map fst (links_of ids)) \<subseteq> {''goodreads'', ''amazon'', ''google''}"
  by (auto simp: links_of_eq link_entry_def split: option.splits)

lemma links_of_distinct: "distinct (map fst (links_of ids))"
  by (simp add: links_of_eq link_entry_def split: option.splits)

lemma links_of_empty:
  "links_of ids = [] \<longleftrightarrow>
     link_for ''https://www.goodreads.com/book/show/'' (goodreads ids) = None
   \<and> link_for ''https://www.amazon.com/dp/'' (amazon ids) = None
   \<and> link_for ''https://books.google.com/books?id='' (google ids) = None"
  by (simp add: links_of_eq link_entry_def split: option.splits)

lemma apply_edition_links:
  "external_links (apply_edition ed data)
     = (case identifiers ed of None \<Rightarrow> external_links data | Some ids \<Rightarrow> Some (links_of ids))"
  by (simp add: apply_edition_def Let_def split: option.splits list.splits)

lemma apply_edition_authors: "authors (apply_edition ed data) = authors data"
  by (simp add: apply_edition_def Let_def split: option.splits list.splits)

lemma edition_step_found:
  "\<exists>w1. edition_step env workId data (after_fetch u w)
          = (Inr (case found_edition env w workId of
                    None \<Rightarrow> data | Some ed \<Rightarrow> apply_edition ed data), w1)
        \<and> storage w1 = storage w
        \<and> storage_keys (new_events w w1) = []"
  by (simp add: edition_step_cases found_edition_def fetches_after_fetch storage_emit
      storage_after_fetch new_events_def trace_emit trace_after_fetch edition_warning_def
      split: sum.splits list.splits)

lemma author_step_cases:
  "author_step env data w =
     (case authors data of
        None \<Rightarrow> (Inr data, w)
      | Some [] \<Rightarrow> (Inl undefined_author, w)
      | Some (a # _) \<Rightarrow>
          (case author a of
             None \<Rightarrow> (Inr data, w)
           | Some k \<Rightarrow> author_fetch env (key k) data w))"
  by (simp add: author_step_def return_def throw_def split: option.splits list.splits)

lemma author_fetch_returns: "\<exists>data' w'. author_fetch env k data w = (Inr data', w')"
  by (simp add: author_fetch_cases split: sum.splits)

lemma author_fetch_links:
  "author_fetch env k data w = (Inr data', w') \<Longrightarrow> external_links data' = external_links data"
  by (auto simp: author_fetch_cases split: sum.splits if_splits)

lemma author_step_links:
  "author_step env data w = (Inr data', w') \<Longrightarrow> external_links data' = external_links data"
  by (auto simp: author_step_cases split: option.splits list.splits dest: author_fetch_links)

lemma author_step_returns:
  "authors data \<noteq> Some [] \<Longrightarrow> \<exists>data' w'. author_step env data w = (Inr data', w')"
  by (auto simp: author_step_cases author_fetch_returns split: option.splits list.splits)

lemma getBookDetails_empty_authors:
  assumes "network env (fetches w) (work_url env workId) = Inr r"
    and "ok r"
    and "json_book env (body r) = Inr data"
    and "authors data = Some []"
  shows "fst (getBookDetails env workId w) = Inl undefined_author"
proof -
  obtain w1 where ed: "edition_step env workId data (after_fetch (work_url env workId) w)
          = (Inr (case found_edition env w workId of
                    None \<Rightarrow> data | Some ed \<Rightarrow> apply_edition ed data), w1)"
    using edition_step_found by blast
  have "authors (case found_edition env w workId of
                    None \<Rightarrow> data | Some ed \<Rightarrow> apply_edition ed data) = Some []"
    using assms(4) by (simp add: apply_edition_authors split: option.splits)
  with assms ed show ?thesis
    by (simp add: getBookDetails_cases author_step_cases)
qed

lemma getBookDetails_returns:
  assumes "network env (fetches w) (work_url env workId) = Inr r"
    and "ok r"
    and "json_book env (body r) = Inr data"
    and "authors data \<noteq> Some []"
  shows "\<exists>result w'. getBookDetails env workId w = (Inr result, w')"
proof -
  obtain w1 where ed: "edition_step env workId data (after_fetch (work_url env workId) w)
          = (Inr (case found_edition env w workId of
                    None \<Rightarrow> data | Some ed \<Rightarrow> apply_edition ed data), w1)"
    using edition_step_found by blast
  have "authors (case found_edition env w workId of
                    None \<Rightarrow> data | Some ed \<Rightarrow> apply_edition ed data) \<noteq> Some []"
    using assms(4) by (simp add: apply_edition_authors split: option.splits)
  then obtain result w' where "author_step env (case found_edition env w workId of
                    None \<Rightarrow> data | Some ed \<Rightarrow> apply_edition ed data) w1 = (Inr result, w')"
    using author_step_returns by blast
  with assms ed show ?thesis
    by (simp add: getBookDetails_cases)
qed

subsection \<open>getBookDetails: the primary fetch fails\<close>

text \<open>
  Claim C3. When the primary fetch returns a response \<open>r\<close>: if its status is 404,
  \<^verbatim>\<open>getBookDetails\<close> raises \<open>BookNotFoundError workId\<close>, whose message carries the
  identifier between double quotes and which is an instance of FetchError, its class
  being a direct subclass of it; if its status is any other status outside 200 to 299, the
  call raises the generic FetchError of line 91, whose class is FetchError itself. In both
  cases the session storage is as it was and the call did not touch it, neither writing
  nor reading.
\<close>

theorem getBookDetails_primary_not_ok:
  assumes "network env (fetches w) (work_url env workId) = Inr r"
  shows "(status r = 404 \<longrightarrow>
            fst (getBookDetails env workId w) = Inl (BookNotFoundError workId))
       \<and> (\<not> ok r \<and> status r \<noteq> 404 \<longrightarrow>
            fst (getBookDetails env workId w)
              = Inl (FetchError ''Failed to fetch book details from Open Library.''))
       \<and> (\<not> ok r \<longrightarrow>
            storage (snd (getBookDetails env workId w)) = storage w
          \<and> storage_keys (new_events w (snd (getBookDetails env workId w))) = [])
       \<and> instanceof (BookNotFoundError workId) C_FetchError
       \<and> err_class (BookNotFoundError workId) = C_BookNotFoundError
       \<and> superclass C_BookNotFoundError = Some C_FetchError
       \<and> err_message (BookNotFoundError workId)
            = ''Book with ID '' @ [CHR 0x22] @ workId @ [CHR 0x22] @ '' not found.''
       \<and> err_class (FetchError ''Failed to fetch book details from Open Library.'') = C_FetchError"
proof -
  have "status r = 404 \<Longrightarrow> \<not> ok r" by (simp add: ok_def)
  with assms show ?thesis
    by (auto simp: getBookDetails_cases storage_after_fetch new_events_def trace_after_fetch
        instanceof_def BookNotFoundError_def FetchError_def)
qed

theorem getBookDetails_primary_not_ok_witness:
  "fst (getBookDetails (example_env (answering 404) dune) ''OL0W'' fresh_world)
     = Inl (BookNotFoundError ''OL0W'')
 \<and> fst (getBookDetails (example_env (answering 503) dune) ''OL0W'' fresh_world)
     = Inl (FetchError ''Failed to fetch book details from Open Library.'')
 \<and> storage (snd (getBookDetails (example_env (answering 404) dune) ''OL0W'' fresh_world))
     = storage fresh_world"
  using getBookDetails_primary_not_ok[of "example_env (answering 404) dune" fresh_world
      "''OL0W''" "\<lparr>status = 404, body = ''{}''\<rparr>"]
    getBookDetails_primary_not_ok[of "example_env (answering 503) dune" fresh_world
      "''OL0W''" "\<lparr>status = 503, body = ''{}''\<rparr>"]
  by (simp add: example_env_def answering_def ok_def)

subsection \<open>getBookDetails: external links\<close>

text \<open>
  Claim C10. Let the primary fetch succeed with the record \<open>data\<close>, and let the call
  return \<open>result\<close>. If an edition is found and it has an identifiers object,
  \<^verbatim>\<open>external_links\<close> of the result is the object built from it; if no edition is found,
  or the edition has no identifiers object, \<^verbatim>\<open>external_links\<close> is what the primary
  record had, so for a primary record without the field it is set exactly when the found
  edition has an identifiers object. The object built has no key other than
  \<^verbatim>\<open>goodreads\<close>, \<^verbatim>\<open>amazon\<close> and \<^verbatim>\<open>google\<close>, each at most once; each of the three
  is present exactly when the identifiers object has a first identifier of that type that
  is not the empty string, and then maps to the canonical URL followed by that identifier;
  the object is empty when none is.
\<close>

theorem getBookDetails_external_links:
  assumes "network env (fetches w) (work_url env workId) = Inr r"
    and "ok r"
    and "json_book env (body r) = Inr data"
    and "getBookDetails env workId w = (Inr result, w')"
  shows "external_links result =
           (case found_edition env w workId of
              None \<Rightarrow> external_links data
            | Some ed \<Rightarrow>
                (case identifiers ed of
                   None \<Rightarrow> external_links data
                 | Some ids \<Rightarrow> Some (links_of ids)))
       \<and> (\<forall>ids. set (map fst (links_of ids)) \<subseteq> {''goodreads'', ''amazon'', ''google''}
              \<and> distinct (map fst (links_of ids))
              \<and> map_of (links_of ids) ''goodreads''
                  = link_for ''https://www.goodreads.com/book/show/'' (goodreads ids)
              \<and> map_of (links_of ids) ''amazon''
                  = link_for ''https://www.amazon.com/dp/'' (amazon ids)
              \<and> map_of (links_of ids) ''google''
                  = link_for ''https://books.google.com/books?id='' (google ids)
              \<and> (links_of ids = [] \<longleftrightarrow>
                    link_for ''https://www.goodreads.com/book/show/'' (goodreads ids) = None
                  \<and> link_for ''https://www.amazon.com/dp/'' (amazon ids) = None
                  \<and> link_for ''https://books.google.com/books?id='' (google ids) = None))
       \<and> (external_links data = None \<longrightarrow>
            (external_links result \<noteq> None \<longleftrightarrow>
               (\<exists>ed ids. found_edition env w workId = Some ed \<and> identifiers ed = Some ids)))"
proof -
  obtain w1 where ed: "edition_step env workId data (after_fetch (work_url env workId) w)
          = (Inr (case found_edition env w workId of
                    None \<Rightarrow> data | Some ed \<Rightarrow> apply_edition ed data), w1)"
    using edition_step_found by blast
  with assms have "author_step env (case found_edition env w workId of
                    None \<Rightarrow> data | Some ed \<Rightarrow> apply_edition ed data) w1 = (Inr result, w')"
    by (simp add: getBookDetails_cases)
  then have "external_links result = external_links (case found_edition env w workId of
                    None \<Rightarrow> data | Some ed \<Rightarrow> apply_edition ed data)"
    by (rule author_step_links)
  then have "external_links result =
           (case found_edition env w workId of
              None \<Rightarrow> external_links data
            | Some ed \<Rightarrow>
                (case identifiers ed of
                   None \<Rightarrow> external_links data
                 | Some ids \<Rightarrow> Some (links_of ids)))"
    by (simp add: apply_edition_links split: option.splits)
  moreover from this have "external_links data = None \<longrightarrow>
            (external_links result \<noteq> None \<longleftrightarrow>
               (\<exists>ed ids. found_edition env w workId = Some ed \<and> identifiers ed = Some ids))"
    by (auto split: option.splits)
  ultimately show ?thesis
    using links_of_keys links_of_distinct links_of_goodreads links_of_amazon links_of_google
      links_of_empty
    by blast
qed

theorem getBookDetails_external_links_witness:
  "\<exists>result w'.
      getBookDetails (example_env (answering 200) dune) ''OL893415W'' fresh_world = (Inr result, w')
    \<and> external_links result
        = Some [(''goodreads'', ''https://www.goodreads.com/book/show/44767458'')]"
proof -
  let ?env = "example_env (answering 200) dune"
  have n: "network ?env (fetches fresh_world) (work_url ?env ''OL893415W'')
             = Inr \<lparr>status = 200, body = ''{}''\<rparr>"
    by (simp add: example_env_def answering_def)
  have o: "ok \<lparr>status = 200, body = ''{}''\<rparr>" by (simp add: ok_def)
  have j: "json_book ?env (body \<lparr>status = 200, body = ''{}''\<rparr>) = Inr dune"
    by (simp add: example_env_def)
  have "authors dune \<noteq> Some []" by (simp add: dune_def)
  then obtain result w' where g: "getBookDetails ?env ''OL893415W'' fresh_world = (Inr result, w')"
    using getBookDetails_returns[OF n o j] by blast
  have f: "found_edition ?env fresh_world ''OL893415W'' = Some first_edition"
    by (simp add: found_edition_def example_env_def answering_def ok_def)
  have "external_links result
        = Some [(''goodreads'', ''https://www.goodreads.com/book/show/44767458'')]"
    using getBookDetails_external_links[OF n o j g]
    by (simp add: f first_edition_def links_of_def truthy_def opt_first_def)
  with g show ?thesis by blast
qed

subsection \<open>getBookDetails: an empty author list\<close>

text \<open>
  Claim C2 says that no failure after a successful primary fetch makes
  \<^verbatim>\<open>getBookDetails\<close> raise, also for a primary record whose author list is empty. The
  two enrichment fetches are indeed absorbed (\<open>getBookDetails_returns\<close>: with any author
  list but the empty one the call returns), but the test of line 127 reads
  \<^verbatim>\<open>data.authors[0].author\<close> outside every \<^verbatim>\<open>try\<close>, and for the primary record
  \<^verbatim>\<open>{ ..., "authors": [] }\<close> that read throws (\<open>getBookDetails_empty_authors\<close>).
  The theorem evaluates the call on such a record: the primary fetch succeeds, the edition
  step succeeds, and the call raises a TypeError.
\<close>

theorem getBookDetails_raises_on_empty_authors:
  "fst (getBookDetails (example_env (answering 200) (dune\<lparr>authors := Some []\<rparr>)) ''OL893415W''
          fresh_world)
     = Inl undefined_author
 \<and> err_class undefined_author = C_TypeError"
proof -
  let ?env = "example_env (answering 200) (dune\<lparr>authors := Some []\<rparr>)"
  have n: "network ?env (fetches fresh_world) (work_url ?env ''OL893415W'')
             = Inr \<lparr>status = 200, body = ''{}''\<rparr>"
    by (simp add: example_env_def answering_def)
  have o: "ok \<lparr>status = 200, body = ''{}''\<rparr>" by (simp add: ok_def)
  have j: "json_book ?env (body \<lparr>status = 200, body = ''{}''\<rparr>) = Inr (dune\<lparr>authors := Some []\<rparr>)"
    by (simp add: example_env_def)
  have "authors (dune\<lparr>authors := Some []\<rparr>) = Some []" by simp
  with n o j have "fst (getBookDetails ?env ''OL893415W'' fresh_world) = Inl undefined_author"
    by (rule getBookDetails_empty_authors)
  then show ?thesis by (simp add: undefined_author_def TypeError_def)
qed

subsection \<open>The category fetchers: the loop\<close>

lemma attempt_cases:
  "attempt env lmt warning s w =
     (case browseBooks env (subject_options s lmt) w of
        (Inl e, w1) \<Rightarrow> (Inr None, emit (Sleep 250) (emit (Console Warn (warning @ s) (Some e)) w1))
      | (Inr r, w1) \<Rightarrow> (Inr (if books r \<noteq> [] then Some (books r) else None), w1))"
  by (simp add: attempt_def try_catch_def bind_def return_def console_def sleep_def
      split: sum.splits prod.splits)

lemma attempt_returns: "\<exists>found w'. attempt env lmt warning s w = (Inr found, w')"
  by (simp add: attempt_cases split: sum.splits prod.splits)

lemma try_subjects_Nil: "try_subjects env lmt warning [] w = (Inr None, w)"
  by (simp add: try_subjects.simps return_def)

lemma try_subjects_Cons:
  "try_subjects env lmt warning (s # rest) w =
     (case attempt env lmt warning s w of
        (Inl e, w1) \<Rightarrow> (Inl e, w1)
      | (Inr (Some bs), w1) \<Rightarrow> (Inr (Some bs), w1)
      | (Inr None, w1) \<Rightarrow> try_subjects env lmt warning rest w1)"
  by (simp add: try_subjects.simps bind_def return_def
      split: sum.splits prod.splits option.splits)

lemma try_subjects_returns: "\<exists>found w'. try_subjects env lmt warning ss w = (Inr found, w')"
proof (induction ss arbitrary: w)
  case Nil
  then show ?case by (simp add: try_subjects_Nil)
next
  case (Cons s ss)
  obtain found w1 where a: "attempt env lmt warning s w = (Inr found, w1)"
    using attempt_returns by blast
  show ?case
  proof (cases found)
    case None
    with a Cons[of w1] show ?thesis by (simp add: try_subjects_Cons)
  next
    case (Some bs)
    with a show ?thesis by (simp add: try_subjects_Cons)
  qed
qed

lemma try_subjects_misses:
  "misses env lmt warning pre w w1 \<Longrightarrow>
   try_subjects env lmt warning (pre @ rest) w = try_subjects env lmt warning rest w1"
proof (induction rule: misses.induct)
  case (misses_done env lmt warning w)
  then show ?case by simp
next
  case (misses_empty env s lmt w r w1 warning ss w2)
  then show ?case by (simp add: try_subjects_Cons attempt_cases)
next
  case (misses_thrown env s lmt w e w1 warning ss w2)
  then show ?case by (simp add: try_subjects_Cons attempt_cases)
qed

lemma try_subjects_hit:
  "browseBooks env (subject_options s lmt) w = (Inr r, w1) \<Longrightarrow> books r \<noteq> [] \<Longrightarrow>
   try_subjects env lmt warning (s # rest) w = (Inr (Some (books r)), w1)"
  by (simp add: try_subjects_Cons attempt_cases)

lemma fallback_returns: "\<exists>bs w'. fallback env lmt warning failure ss w = (Inr bs, w')"
proof -
  obtain found w1 where "try_subjects env lmt warning ss w = (Inr found, w1)"
    using try_subjects_returns by blast
  then show ?thesis
    by (cases found) (simp_all add: fallback_def bind_def return_def console_def)
qed

lemma fallback_all_miss:
  assumes "misses env lmt warning ss w w1"
  shows "fallback env lmt warning failure ss w = (Inr [], emit (Console Err failure None) w1)"
proof -
  have "try_subjects env lmt warning (ss @ []) w = try_subjects env lmt warning [] w1"
    using assms by (rule try_subjects_misses)
  then show ?thesis
    by (simp add: fallback_def bind_def return_def console_def try_subjects_Nil)
qed

lemma fallback_first_hit:
  assumes "misses env lmt warning pre w w1"
    and "browseBooks env (subject_options s lmt) w1 = (Inr r, w2)"
    and "books r \<noteq> []"
  shows "fallback env lmt warning failure (pre @ s # post) w = (Inr (books r), w2)"
proof -
  have "try_subjects env lmt warning (pre @ s # post) w
          = try_subjects env lmt warning (s # post) w1"
    using assms(1) by (rule try_subjects_misses)
  also have "\<dots> = (Inr (Some (books r)), w2)"
    using assms(2,3) by (rule try_subjects_hit)
  finally show ?thesis
    by (simp add: fallback_def bind_def return_def)
qed

text \<open>The trace of the subjects that missed.\<close>

lemma misses_trace:
  "misses env lmt warning pre w w1 \<Longrightarrow>
   \<exists>evs. trace w1 = trace w @ evs
       \<and> fetched_urls evs = map (\<lambda>x. requestUrl (OPEN_LIBRARY_URL env) (subject_options x lmt)) pre"
proof (induction rule: misses.induct)
  case (misses_done env lmt warning w)
  then show ?case by simp
next
  case (misses_empty env s lmt w r w1 warning ss w2)
  from misses_empty(1) obtain evs1 where 1: "trace w1 = trace w @ evs1"
      "fetched_urls evs1 = [requestUrl (OPEN_LIBRARY_URL env) (subject_options s lmt)]"
    using browseBooks_trace_of by blast
  from misses_empty.IH obtain evs2 where 2: "trace w2 = trace w1 @ evs2"
      "fetched_urls evs2 = map (\<lambda>x. requestUrl (OPEN_LIBRARY_URL env) (subject_options x lmt)) ss"
    by blast
  from 1 2 have "trace w2 = trace w @ (evs1 @ evs2)
       \<and> fetched_urls (evs1 @ evs2)
           = map (\<lambda>x. requestUrl (OPEN_LIBRARY_URL env) (subject_options x lmt)) (s # ss)"
    by (simp add: fetched_urls_append)
  then show ?case by blast
next
  case (misses_thrown env s lmt w e w1 warning ss w2)
  from misses_thrown(1) obtain evs1 where 1: "trace w1 = trace w @ evs1"
      "fetched_urls evs1 = [requestUrl (OPEN_LIBRARY_URL env) (subject_options s lmt)]"
    using browseBooks_trace_of by blast
  from misses_thrown.IH obtain evs2 where 2:
      "trace w2 = trace (emit (Sleep 250) (emit (Console Warn (warning @ s) (Some e)) w1)) @ evs2"
      "fetched_urls evs2 = map (\<lambda>x. requestUrl (OPEN_LIBRARY_URL env) (subject_options x lmt)) ss"
    by blast
  from 1 2 have "trace w2 = trace w @ (evs1 @ [Console Warn (warning @ s) (Some e), Sleep 250] @ evs2)
       \<and> fetched_urls (evs1 @ [Console Warn (warning @ s) (Some e), Sleep 250] @ evs2)
           = map (\<lambda>x. requestUrl (OPEN_LIBRARY_URL env) (subject_options x lmt)) (s # ss)"
    by (simp add: fetched_urls_append trace_emit)
  then show ?case by blast
qed

text \<open>The loop leaves the arrays of strings alone; the shuffle in closed form.\<close>

lemma attempt_arrays: "string_arrays (snd (attempt env lmt warning s w)) = string_arrays w"
  using browseBooks_arrays[of env "subject_options s lmt" w]
  by (auto simp: attempt_cases arrays_emit split: sum.splits prod.splits)

lemma try_subjects_arrays:
  "string_arrays (snd (try_subjects env lmt warning ss w)) = string_arrays w"
proof (induction ss arbitrary: w)
  case Nil
  then show ?case by (simp add: try_subjects_Nil)
next
  case (Cons s ss)
  obtain x w1 where a: "attempt env lmt warning s w = (x, w1)" by (cases "attempt env lmt warning s w")
  with attempt_arrays[of env lmt warning s w] have "string_arrays w1 = string_arrays w" by simp
  with a Cons[of w1] show ?case
    by (simp add: try_subjects_Cons split: sum.splits option.splits)
qed

lemma fallback_arrays:
  "string_arrays (snd (fallback env lmt warning failure ss w)) = string_arrays w"
proof -
  obtain x w1 where a: "try_subjects env lmt warning ss w = (x, w1)"
    by (cases "try_subjects env lmt warning ss w")
  with try_subjects_arrays[of env lmt warning ss w] have "string_arrays w1 = string_arrays w"
    by simp
  with a show ?thesis
    by (simp add: fallback_def bind_def return_def console_def arrays_emit
        split: sum.splits option.splits)
qed

lemma subjectsToTry_cases:
  "\<exists>w1. subjectsToTry env w =
          (Inr (map fst (sort_key snd
                  (zip (string_arrays w POPULAR_RANDOM_SUBJECTS)
                       (drawn_keys env w (length (string_arrays w POPULAR_RANDOM_SUBJECTS)))))), w1)
       \<and> string_arrays w1 POPULAR_RANDOM_SUBJECTS = string_arrays w POPULAR_RANDOM_SUBJECTS
       \<and> storage w1 = storage w \<and> fetches w1 = fetches w \<and> trace w1 = trace w"
  by (simp add: subjectsToTry_def bind_def spread_def new_string_array_def map_random_def
      new_keyed_array_def sort_in_place_def map_value_def read_array_def Let_def
      drawn_keys_def POPULAR_RANDOM_SUBJECTS_def)

lemma mset_shuffle:
  "length ks = length xs \<Longrightarrow> mset (map fst (sort_key snd (zip xs ks))) = mset xs"
proof -
  assume "length ks = length xs"
  then have "map fst (zip xs ks) = xs" by simp
  have "mset (map fst (sort_key snd (zip xs ks))) = image_mset fst (mset (sort_key snd (zip xs ks)))"
    by simp
  also have "\<dots> = image_mset fst (mset (zip xs ks))" by simp
  also have "\<dots> = mset (map fst (zip xs ks))" by simp
  finally show ?thesis using \<open>map fst (zip xs ks) = xs\<close> by simp
qed

text \<open>With no network and nothing cached, every subject misses.\<close>

lemma browseBooks_fails_uncached:
  assumes "fetch_or_parse_fails env w (requestUrl (OPEN_LIBRARY_URL env) options) e"
    and "storage w (cacheKey (OPEN_LIBRARY_URL env) options) = None"
  shows "\<exists>w'. browseBooks env options w = (Inl e, w') \<and> storage w' = storage w
            \<and> fetches w' = Suc (fetches w)"
  using browse_try_fails[OF assms(1)] assms(2)
  by (simp add: browseBooks_try_catch browse_catch_cases truthy_iff storage_emit
      storage_after_fetch fetches_after_fetch emit_def)

lemma misses_when_offline:
  assumes "\<forall>n url. network env n url = Inl e"
  shows "storage w = (\<lambda>k. None) \<Longrightarrow>
         \<exists>w1. misses env lmt warning ss w w1 \<and> storage w1 = (\<lambda>k. None)"
proof (induction ss arbitrary: w)
  case Nil
  then show ?case by (auto intro: misses_done)
next
  case (Cons s ss)
  have "fetch_or_parse_fails env w (requestUrl (OPEN_LIBRARY_URL env) (subject_options s lmt)) e"
    using assms by (simp add: fetch_or_parse_fails_def)
  then obtain w' where b: "browseBooks env (subject_options s lmt) w = (Inl e, w')"
      and st: "storage w' = storage w"
    using browseBooks_fails_uncached[of env w "subject_options s lmt" e] Cons.prems by auto
  have "storage (emit (Sleep 250) (emit (Console Warn (warning @ s) (Some e)) w')) = (\<lambda>k. None)"
    using st Cons.prems by (simp add: storage_emit)
  then obtain w1 where
      m: "misses env lmt warning ss (emit (Sleep 250) (emit (Console Warn (warning @ s) (Some e)) w')) w1"
      and s1: "storage w1 = (\<lambda>k. None)"
    using Cons.IH by blast
  from b m have "misses env lmt warning (s # ss) w w1" by (rule misses_thrown)
  with s1 show ?case by blast
qed

text \<open>The order the example session shuffles to.\<close>

lemma shuffled_example:
  "map fst (sort_key snd (zip popular_random_subjects
      (drawn_keys (example_env flaky dune) fresh_world 6)))
   = [''fantasy'', ''romance'', ''mystery'', ''adventure'', ''science_fiction'', ''thriller'']"
  by (simp add: popular_random_subjects_def drawn_keys_def example_env_def fresh_world_def
      upt_rec)

subsection \<open>The category fetchers never raise\<close>

text \<open>
  Claim C4. For every limit, every world and every environment (so whatever each browse
  call does: fail, return no book, return books), each of \<^verbatim>\<open>getTrendingBooks\<close>,
  \<^verbatim>\<open>getTopRatedBooks\<close> and \<^verbatim>\<open>getRandomBooks\<close> returns a book sequence and does not
  raise. When every subject of its list misses (its browse call throws or returns no
  book), the fetcher returns the empty sequence.
\<close>

theorem category_fetchers_never_raise:
  "(\<exists>bs w'. getTrendingBooks env lmt w = (Inr bs, w'))
 \<and> (\<exists>bs w'. getTopRatedBooks env lmt w = (Inr bs, w'))
 \<and> (\<exists>bs w'. getRandomBooks env lmt w = (Inr bs, w'))
 \<and> (\<forall>w1. misses env (default_limit lmt) ''Trending fallback failed for subject: ''
             TRENDING_FALLBACKS w w1
         \<longrightarrow> fst (getTrendingBooks env lmt w) = Inr [])
 \<and> (\<forall>w1. misses env (default_limit lmt) ''Top rated fallback failed for subject: ''
             TOP_RATED_FALLBACKS w w1
         \<longrightarrow> fst (getTopRatedBooks env lmt w) = Inr [])
 \<and> (\<forall>subjects w0 w1.
         subjectsToTry env w = (Inr subjects, w0)
       \<and> misses env (default_limit lmt) ''Random books failed for subject: '' subjects w0 w1
         \<longrightarrow> fst (getRandomBooks env lmt w) = Inr [])"
proof -
  obtain ss w0 where s: "subjectsToTry env w = (Inr ss, w0)"
    using subjectsToTry_cases by blast
  have "\<exists>bs w'. getRandomBooks env lmt w = (Inr bs, w')"
    using s fallback_returns by (simp add: getRandomBooks_def bind_def)
  moreover have "\<forall>subjects w0 w1.
         subjectsToTry env w = (Inr subjects, w0)
       \<and> misses env (default_limit lmt) ''Random books failed for subject: '' subjects w0 w1
         \<longrightarrow> fst (getRandomBooks env lmt w) = Inr []"
    by (auto simp: getRandomBooks_def bind_def fallback_all_miss)
  ultimately show ?thesis
    by (auto simp: getTrendingBooks_def getTopRatedBooks_def fallback_returns
        fallback_all_miss)
qed

theorem category_fetchers_never_raise_witness:
  "fst (getTrendingBooks (example_env offline dune) None fresh_world) = Inr []
 \<and> fst (getTopRatedBooks (example_env offline dune) (Some 5) fresh_world) = Inr []
 \<and> fst (getRandomBooks (example_env offline dune) None fresh_world) = Inr []"
proof -
  let ?env = "example_env offline dune"
  have off: "\<forall>n url. network ?env n url = Inl failed_to_fetch"
    by (simp add: example_env_def offline_def)
  have st: "storage fresh_world = (\<lambda>k. None)" by (simp add: fresh_world_def)
  obtain w1 where 1: "misses ?env (default_limit None) ''Trending fallback failed for subject: ''
                        TRENDING_FALLBACKS fresh_world w1"
    using misses_when_offline[OF off st] by blast
  obtain w2 where 2: "misses ?env (default_limit (Some 5)) ''Top rated fallback failed for subject: ''
                        TOP_RATED_FALLBACKS fresh_world w2"
    using misses_when_offline[OF off st] by blast
  obtain subjects w0 where s: "subjectsToTry ?env fresh_world = (Inr subjects, w0)"
      and st0: "storage w0 = storage fresh_world"
    using subjectsToTry_cases[of ?env fresh_world] by blast
  have "storage w0 = (\<lambda>k. None)" using st st0 by simp
  from misses_when_offline[OF off this]
  obtain w3 where 3: "misses ?env (default_limit None) ''Random books failed for subject: ''
                        subjects w0 w3"
    by blast
  note trending = category_fetchers_never_raise[of ?env None fresh_world,
      THEN conjunct2, THEN conjunct2, THEN conjunct2, THEN conjunct1, rule_format, OF 1]
  note top_rated = category_fetchers_never_raise[of ?env "Some 5" fresh_world,
      THEN conjunct2, THEN conjunct2, THEN conjunct2, THEN conjunct2, THEN conjunct1,
      rule_format, OF 2]
  note random = category_fetchers_never_raise[of ?env None fresh_world,
      THEN conjunct2, THEN conjunct2, THEN conjunct2, THEN conjunct2, THEN conjunct2,
      rule_format, OF conjI[OF s 3]]
  show ?thesis
    by (intro conjI trending top_rated random)
qed

subsection \<open>The category fetchers return the first non-empty result\<close>

text \<open>
  Claim C6. Let the list a fetcher iterates be \<open>pre @ s # post\<close>. Suppose the subjects of
  \<open>pre\<close>, tried in order from world \<open>w\<close>, all miss and leave the world \<open>w1\<close>
  (\<open>misses\<close>: after a thrown call the next subject starts once the warning is logged and
  250 ms are slept, after an empty result it starts at once), and the browse call of \<open>s\<close>
  in \<open>w1\<close> returns a non-empty sequence and leaves \<open>w2\<close>. Then the fetcher returns
  that sequence and ends in \<open>w2\<close>, the very world the browse call of \<open>s\<close> left: nothing
  is done after it. The fetches of the whole run are the request URLs of \<open>pre\<close> and then
  of \<open>s\<close>, in list order, each once, and none for \<open>post\<close>. This holds for the shared loop
  and so for each of the three fetchers with its list and warning (for
  \<^verbatim>\<open>getRandomBooks\<close> the list is the shuffled one). One turn of the loop, in any world:
  after a browse call that throws, the warning and a sleep of 250 ms follow and the loop
  goes on; after a browse call that returns, nothing follows.
\<close>

theorem category_fetchers_first_nonempty:
  assumes "misses env lmt warning pre w w1"
    and "browseBooks env (subject_options s lmt) w1 = (Inr r, w2)"
    and "books r \<noteq> []"
  shows "fallback env lmt warning failure (pre @ s # post) w = (Inr (books r), w2)
       \<and> fetched_urls (new_events w w2)
           = map (\<lambda>x. requestUrl (OPEN_LIBRARY_URL env) (subject_options x lmt)) (pre @ [s])
       \<and> (\<forall>arg. default_limit arg = lmt
               \<and> warning = ''Trending fallback failed for subject: ''
               \<and> TRENDING_FALLBACKS = pre @ s # post
             \<longrightarrow> getTrendingBooks env arg w = (Inr (books r), w2))
       \<and> (\<forall>arg. default_limit arg = lmt
               \<and> warning = ''Top rated fallback failed for subject: ''
               \<and> TOP_RATED_FALLBACKS = pre @ s # post
             \<longrightarrow> getTopRatedBooks env arg w = (Inr (books r), w2))
       \<and> (\<forall>arg w0. default_limit arg = lmt
               \<and> warning = ''Random books failed for subject: ''
               \<and> subjectsToTry env w0 = (Inr (pre @ s # post), w)
             \<longrightarrow> getRandomBooks env arg w0 = (Inr (books r), w2))
       \<and> (\<forall>x v e v'. browseBooks env (subject_options x lmt) v = (Inl e, v')
             \<longrightarrow> attempt env lmt warning x v
                   = (Inr None, emit (Sleep 250) (emit (Console Warn (warning @ x) (Some e)) v')))
       \<and> (\<forall>x v r' v'. browseBooks env (subject_options x lmt) v = (Inr r', v')
             \<longrightarrow> snd (attempt env lmt warning x v) = v')"
    (is "?hit \<and> ?urls \<and> ?trending \<and> ?top_rated \<and> ?random \<and> ?thrown \<and> ?returned")
proof -
  have hit: "fallback env lmt warning f (pre @ s # post) w = (Inr (books r), w2)" for f
    using assms by (rule fallback_first_hit)
  obtain evs1 where 1: "trace w1 = trace w @ evs1"
      "fetched_urls evs1 = map (\<lambda>x. requestUrl (OPEN_LIBRARY_URL env) (subject_options x lmt)) pre"
    using misses_trace[OF assms(1)] by blast
  obtain evs2 where 2: "trace w2 = trace w1 @ evs2"
      "fetched_urls evs2 = [requestUrl (OPEN_LIBRARY_URL env) (subject_options s lmt)]"
    using browseBooks_trace_of[OF assms(2)] by blast
  have urls: ?urls
    using 1 2 by (simp add: new_events_def fetched_urls_append)
  have trending: ?trending
  proof (intro allI impI)
    fix arg
    assume "default_limit arg = lmt \<and> warning = ''Trending fallback failed for subject: ''
               \<and> TRENDING_FALLBACKS = pre @ s # post"
    then have "getTrendingBooks env arg w
                 = fallback env lmt warning ''All fallback subjects for trending books failed.''
                     (pre @ s # post) w"
      unfolding getTrendingBooks_def by simp
    then show "getTrendingBooks env arg w = (Inr (books r), w2)"
      by (simp only: hit)
  qed
  have top_rated: ?top_rated
  proof (intro allI impI)
    fix arg
    assume "default_limit arg = lmt \<and> warning = ''Top rated fallback failed for subject: ''
               \<and> TOP_RATED_FALLBACKS = pre @ s # post"
    then have "getTopRatedBooks env arg w
                 = fallback env lmt warning ''All fallback subjects for top-rated books failed.''
                     (pre @ s # post) w"
      unfolding getTopRatedBooks_def by simp
    then show "getTopRatedBooks env arg w = (Inr (books r), w2)"
      by (simp only: hit)
  qed
  have random: ?random
  proof (intro allI impI)
    fix arg w0
    assume "default_limit arg = lmt \<and> warning = ''Random books failed for subject: ''
               \<and> subjectsToTry env w0 = (Inr (pre @ s # post), w)"
    then have "getRandomBooks env arg w0
                 = fallback env lmt warning ''All random subjects failed to return results.''
                     (pre @ s # post) w"
      unfolding getRandomBooks_def by (simp add: bind_def)
    then show "getRandomBooks env arg w0 = (Inr (books r), w2)"
      by (simp only: hit)
  qed
  have thrown: ?thrown
    by (simp add: attempt_cases)
  have returned: ?returned
    by (simp add: attempt_cases)
  show ?thesis
    by (intro conjI hit urls trending top_rated random thrown returned)
qed

theorem category_fetchers_first_nonempty_witness:
  "fst (getTrendingBooks (example_env flaky dune) None fresh_world) = Inr [dune]
 \<and> fetched_urls (trace (snd (getTrendingBooks (example_env flaky dune) None fresh_world)))
     = [requestUrl ''https://openlibrary.org'' (subject_options ''love'' 20),
        requestUrl ''https://openlibrary.org'' (subject_options ''fiction'' 20)]
 \<and> fst (getTopRatedBooks (example_env flaky dune) None fresh_world) = Inr [dune]
 \<and> fst (getRandomBooks (example_env flaky dune) None fresh_world) = Inr [dune]"
proof -
  let ?env = "example_env flaky dune"
  let ?found = "\<lparr>docs = [dune, dune\<lparr>book_key := None\<rparr>, dune\<lparr>book_key := Some []\<rparr>],
                 numFound = 3\<rparr>"
  have run: "\<exists>v r w2. misses ?env 20 warning [s1] w0 v
                  \<and> browseBooks ?env (subject_options s2 20) v = (Inr r, w2)
                  \<and> books r = [dune]"
    if zero: "fetches w0 = 0" and empty: "storage w0 = (\<lambda>k. None)" for warning s1 s2 w0
  proof -
    have "fetch_or_parse_fails ?env w0
            (requestUrl (OPEN_LIBRARY_URL ?env) (subject_options s1 20)) failed_to_fetch"
      using zero by (simp add: fetch_or_parse_fails_def example_env_def flaky_def)
    then obtain v0 where b1: "browseBooks ?env (subject_options s1 20) w0 = (Inl failed_to_fetch, v0)"
        and f1: "fetches v0 = Suc (fetches w0)"
      using browseBooks_fails_uncached[of ?env w0 "subject_options s1 20" failed_to_fetch] empty
      by auto
    define v where "v = emit (Sleep 250) (emit (Console Warn (warning @ s1) (Some failed_to_fetch)) v0)"
    have m: "misses ?env 20 warning [s1] w0 v"
      unfolding v_def by (rule misses_thrown[OF b1 misses_done])
    have "fetches v = 1"
      using f1 zero by (simp add: v_def emit_def)
    then have n: "network ?env (fetches v)
                 (requestUrl (OPEN_LIBRARY_URL ?env) (subject_options s2 20))
               = Inr \<lparr>status = 200, body = ''{}''\<rparr>"
      by (simp add: example_env_def flaky_def)
    have o: "ok \<lparr>status = 200, body = ''{}''\<rparr>" by (simp add: ok_def)
    have j: "json_search ?env (body \<lparr>status = 200, body = ''{}''\<rparr>) = Inr ?found"
      by (simp add: example_env_def)
    obtain r w2 where "browseBooks ?env (subject_options s2 20) v = (Inr r, w2)"
        and "books r = [dune]"
      using browseBooks_ok[OF n o j] by (auto simp: dune_def)
    with m show ?thesis by blast
  qed
  have d: "default_limit None = 20" by (simp add: default_limit_def)
  have fresh: "fetches fresh_world = 0" "storage fresh_world = (\<lambda>k. None)"
    by (simp_all add: fresh_world_def)

  obtain v r w2 where m: "misses ?env 20 ''Trending fallback failed for subject: '' [''love''] fresh_world v"
      and b: "browseBooks ?env (subject_options ''fiction'' 20) v = (Inr r, w2)"
      and bs: "books r = [dune]"
    using run[OF fresh] by blast
  have ne: "books r \<noteq> []" using bs by simp
  have t: "TRENDING_FALLBACKS = [''love''] @ ''fiction'' # [''thriller'', ''adventure'', ''fantasy'']"
    by (simp add: TRENDING_FALLBACKS_def)
  note first_hit = category_fetchers_first_nonempty[OF m b ne,
      of "''All fallback subjects for trending books failed.''"
         "[''thriller'', ''adventure'', ''fantasy'']"]
  have g: "getTrendingBooks ?env None fresh_world = (Inr (books r), w2)"
    by (rule first_hit[THEN conjunct2, THEN conjunct2, THEN conjunct1, rule_format,
          OF conjI[OF d conjI[OF refl t]]])
  have u: "fetched_urls (new_events fresh_world w2)
            = map (\<lambda>x. requestUrl (OPEN_LIBRARY_URL ?env) (subject_options x 20))
                ([''love''] @ [''fiction''])"
    by (rule first_hit[THEN conjunct2, THEN conjunct1])
  from u have "fetched_urls (trace w2)
            = [requestUrl ''https://openlibrary.org'' (subject_options ''love'' 20),
               requestUrl ''https://openlibrary.org'' (subject_options ''fiction'' 20)]"
    by (simp add: new_events_def fresh_world_def example_env_def)
  with g bs have trending:
    "fst (getTrendingBooks ?env None fresh_world) = Inr [dune]
   \<and> fetched_urls (trace (snd (getTrendingBooks ?env None fresh_world)))
     = [requestUrl ''https://openlibrary.org'' (subject_options ''love'' 20),
        requestUrl ''https://openlibrary.org'' (subject_options ''fiction'' 20)]"
    by simp

  obtain v' r' w2' where m': "misses ?env 20 ''Top rated fallback failed for subject: ''
                               [''history''] fresh_world v'"
      and b': "browseBooks ?env (subject_options ''classic_literature'' 20) v' = (Inr r', w2')"
      and bs': "books r' = [dune]"
    using run[OF fresh] by blast
  have ne': "books r' \<noteq> []" using bs' by simp
  have t': "TOP_RATED_FALLBACKS = [''history''] @ ''classic_literature'' # [''biography'', ''science'']"
    by (simp add: TOP_RATED_FALLBACKS_def)
  note first_hit' = category_fetchers_first_nonempty[OF m' b' ne',
      of "''All fallback subjects for top-rated books failed.''" "[''biography'', ''science'']"]
  have "getTopRatedBooks ?env None fresh_world = (Inr (books r'), w2')"
    by (rule first_hit'[THEN conjunct2, THEN conjunct2, THEN conjunct2, THEN conjunct1,
          rule_format, OF conjI[OF d conjI[OF refl t']]])
  with bs' have top_rated: "fst (getTopRatedBooks ?env None fresh_world) = Inr [dune]"
    by simp

  have arr: "string_arrays fresh_world POPULAR_RANDOM_SUBJECTS = popular_random_subjects"
    by (simp add: fresh_world_def)
  have len: "length popular_random_subjects = 6"
    by (simp add: popular_random_subjects_def)
  obtain w0 where s': "subjectsToTry ?env fresh_world =
          (Inr (map fst (sort_key snd
                  (zip (string_arrays fresh_world POPULAR_RANDOM_SUBJECTS)
                       (drawn_keys ?env fresh_world
                          (length (string_arrays fresh_world POPULAR_RANDOM_SUBJECTS)))))), w0)"
      and s0: "storage w0 = storage fresh_world" and f0: "fetches w0 = fetches fresh_world"
    using subjectsToTry_cases[of ?env fresh_world] by blast
  have s: "subjectsToTry ?env fresh_world
          = (Inr ([''fantasy''] @ ''romance'' # [''mystery'', ''adventure'', ''science_fiction'', ''thriller'']), w0)"
    using s' by (simp only: arr len shuffled_example) simp
  have shuffled: "fetches w0 = 0" "storage w0 = (\<lambda>k. None)"
    using s0 f0 fresh by simp_all
  obtain v'' r'' w2'' where m'': "misses ?env 20 ''Random books failed for subject: ''
                               [''fantasy''] w0 v''"
      and b'': "browseBooks ?env (subject_options ''romance'' 20) v'' = (Inr r'', w2'')"
      and bs'': "books r'' = [dune]"
    using run[OF shuffled] by blast
  have ne'': "books r'' \<noteq> []" using bs'' by simp
  note first_hit'' = category_fetchers_first_nonempty[OF m'' b'' ne'',
      of "''All random subjects failed to return results.''"
         "[''mystery'', ''adventure'', ''science_fiction'', ''thriller'']"]
  have "getRandomBooks ?env None fresh_world = (Inr (books r''), w2'')"
    by (rule first_hit''[THEN conjunct2, THEN conjunct2, THEN conjunct2, THEN conjunct2,
          THEN conjunct1, rule_format, OF conjI[OF d conjI[OF refl s]]])
  with bs'' have random: "fst (getRandomBooks ?env None fresh_world) = Inr [dune]"
    by simp
  from trending top_rated random show ?thesis by simp
qed

subsection \<open>getRandomBooks shuffles a copy\<close>

text \<open>
  Claim C8. In a world where the module is loaded (the array
  \<^verbatim>\<open>POPULAR_RANDOM_SUBJECTS\<close> holds adventure, fantasy, science_fiction, romance,
  thriller, mystery), the list \<^verbatim>\<open>getRandomBooks\<close> iterates is that list sorted stably by
  six keys drawn from \<^verbatim>\<open>Math.random()\<close>, one per element in order; it has the same
  elements with the same multiplicities, whatever the keys. The array itself holds the
  same list after the shuffle and after the whole call: the spread and the two
  \<^verbatim>\<open>map\<close>s write new arrays, and the sort writes the array the first \<^verbatim>\<open>map\<close> made.
\<close>

theorem getRandomBooks_shuffle:
  assumes "module_loaded w"
  shows "\<exists>subjects w1.
           subjectsToTry env w = (Inr subjects, w1)
         \<and> subjects = map fst (sort_key snd (zip popular_random_subjects (drawn_keys env w 6)))
         \<and> mset subjects = mset popular_random_subjects
         \<and> getRandomBooks env lmt w
             = fallback env (default_limit lmt) ''Random books failed for subject: ''
                 ''All random subjects failed to return results.'' subjects w1
         \<and> string_arrays w1 POPULAR_RANDOM_SUBJECTS = popular_random_subjects
         \<and> string_arrays (snd (getRandomBooks env lmt w)) POPULAR_RANDOM_SUBJECTS
             = popular_random_subjects"
proof -
  have len: "length popular_random_subjects = 6" by (simp add: popular_random_subjects_def)
  obtain w1 where s: "subjectsToTry env w =
          (Inr (map fst (sort_key snd (zip popular_random_subjects (drawn_keys env w 6)))), w1)"
      and a: "string_arrays w1 POPULAR_RANDOM_SUBJECTS = popular_random_subjects"
    using subjectsToTry_cases[of env w] assms by (auto simp: module_loaded_def len)
  have m: "mset (map fst (sort_key snd (zip popular_random_subjects (drawn_keys env w 6))))
             = mset popular_random_subjects"
    by (rule mset_shuffle) (simp add: drawn_keys_def len)
  have g: "getRandomBooks env lmt w
             = fallback env (default_limit lmt) ''Random books failed for subject: ''
                 ''All random subjects failed to return results.''
                 (map fst (sort_key snd (zip popular_random_subjects (drawn_keys env w 6)))) w1"
    using s by (simp add: getRandomBooks_def bind_def)
  have "string_arrays (snd (getRandomBooks env lmt w)) POPULAR_RANDOM_SUBJECTS
             = popular_random_subjects"
    using a by (simp add: g fallback_arrays)
  with s m g a show ?thesis by blast
qed

theorem getRandomBooks_shuffle_witness:
  "module_loaded fresh_world
 \<and> (\<exists>subjects w1.
       subjectsToTry (example_env offline dune) fresh_world = (Inr subjects, w1)
     \<and> mset subjects = mset popular_random_subjects
     \<and> string_arrays (snd (getRandomBooks (example_env offline dune) None fresh_world))
          POPULAR_RANDOM_SUBJECTS
         = [''adventure'', ''fantasy'', ''science_fiction'', ''romance'', ''thriller'', ''mystery''])"
proof -
  have m: "module_loaded fresh_world" by (simp add: module_loaded_def fresh_world_def)
  from getRandomBooks_shuffle[OF m, of "example_env offline dune" None] m
  show ?thesis by (auto simp: popular_random_subjects_def)
qed

subsection \<open>Further properties of the two entry points\<close>

lemma author_fetch_keeps:
  "author_fetch env k data w = (Inr data', w') \<Longrightarrow>
   book_key data' = book_key data \<and> title data' = title data \<and> cover_i data' = cover_i data
   \<and> storage w' = storage w"
  by (auto simp: author_fetch_cases storage_emit storage_after_fetch split: sum.splits if_splits)

lemma author_step_keeps:
  "author_step env data w = (Inr data', w') \<Longrightarrow>
   book_key data' = book_key data \<and> title data' = title data \<and> cover_i data' = cover_i data
   \<and> storage w' = storage w"
  by (auto simp: author_step_cases split: option.splits list.splits dest: author_fetch_keeps)

lemma apply_edition_keeps:
  "book_key (apply_edition ed data) = book_key data \<and> title (apply_edition ed data) = title data"
  by (simp add: apply_edition_def Let_def split: option.splits list.splits)

text \<open>
  Enrichment is best effort. When the primary fetch succeeds with the record \<open>data\<close> and
  its author list is not the empty array, \<^verbatim>\<open>getBookDetails\<close> returns, whatever the two
  enrichment fetches do; the result keeps the identifier and the title of the primary
  record, and when no edition is found also its cover and its external links. The session
  storage is as it was.
\<close>

theorem getBookDetails_absorbs_enrichment_failures:
  assumes "network env (fetches w) (work_url env workId) = Inr r"
    and "ok r"
    and "json_book env (body r) = Inr data"
    and "authors data \<noteq> Some []"
  shows "\<exists>result w'.
           getBookDetails env workId w = (Inr result, w')
         \<and> book_key result = book_key data \<and> title result = title data
         \<and> (found_edition env w workId = None \<longrightarrow>
              cover_i result = cover_i data \<and> external_links result = external_links data)
         \<and> storage w' = storage w"
proof -
  let ?data1 = "case found_edition env w workId of
                  None \<Rightarrow> data | Some ed \<Rightarrow> apply_edition ed data"
  obtain w1 where ed: "edition_step env workId data (after_fetch (work_url env workId) w)
          = (Inr ?data1, w1)" and s1: "storage w1 = storage w"
    using edition_step_found by blast
  have "authors ?data1 \<noteq> Some []"
    using assms(4) by (simp add: apply_edition_authors split: option.splits)
  then obtain result w' where a: "author_step env ?data1 w1 = (Inr result, w')"
    using author_step_returns by blast
  have g: "getBookDetails env workId w = (Inr result, w')"
    using assms ed a by (simp add: getBookDetails_cases)
  have k: "book_key result = book_key ?data1 \<and> title result = title ?data1
         \<and> cover_i result = cover_i ?data1 \<and> storage w' = storage w1"
    using a by (rule author_step_keeps)
  have l: "external_links result = external_links ?data1"
    using a by (rule author_step_links)
  have 1: "book_key result = book_key data \<and> title result = title data"
    using k by (simp add: apply_edition_keeps split: option.splits)
  have 2: "found_edition env w workId = None \<longrightarrow>
              cover_i result = cover_i data \<and> external_links result = external_links data"
    using k l by simp
  have 3: "storage w' = storage w" using k s1 by simp
  from g 1 2 3 have "getBookDetails env workId w = (Inr result, w')
         \<and> book_key result = book_key data \<and> title result = title data
         \<and> (found_edition env w workId = None \<longrightarrow>
              cover_i result = cover_i data \<and> external_links result = external_links data)
         \<and> storage w' = storage w"
    by simp
  then show ?thesis by (intro exI)
qed

theorem getBookDetails_absorbs_enrichment_failures_witness:
  "\<exists>result w'.
      getBookDetails
        (example_env first_only (dune\<lparr>authors := Some [\<lparr>author = Some \<lparr>key = ''/authors/OL79034A''\<rparr>\<rparr>]\<rparr>))
        ''OL893415W'' fresh_world = (Inr result, w')
    \<and> title result = Some ''Dune'' \<and> cover_i result = None \<and> external_links result = None"
proof -
  let ?work = "dune\<lparr>authors := Some [\<lparr>author = Some \<lparr>key = ''/authors/OL79034A''\<rparr>\<rparr>]\<rparr>"
  let ?env = "example_env first_only ?work"
  have n: "network ?env (fetches fresh_world) (work_url ?env ''OL893415W'')
             = Inr \<lparr>status = 200, body = ''{}''\<rparr>"
    by (simp add: example_env_def first_only_def fresh_world_def)
  have o: "ok \<lparr>status = 200, body = ''{}''\<rparr>" by (simp add: ok_def)
  have j: "json_book ?env (body \<lparr>status = 200, body = ''{}''\<rparr>) = Inr ?work"
    by (simp add: example_env_def)
  have a: "authors ?work \<noteq> Some []" by simp
  have f: "found_edition ?env fresh_world ''OL893415W'' = None"
    by (simp add: found_edition_def example_env_def first_only_def)
  from getBookDetails_absorbs_enrichment_failures[OF n o j a] f
  show ?thesis by (auto simp: dune_def)
qed

text \<open>
  Cache fallback after a success. A call with some options succeeds and returns
  \<open>result\<close>; later, in a world where the entry under the key of these options is still
  the one that call wrote, a call with the same options fails at the network or at the
  parse. If the platform's \<^verbatim>\<open>JSON.parse\<close> reads back what its
  \<^verbatim>\<open>JSON.stringify\<close> wrote for \<open>result\<close> (and that text is not empty), the second
  call returns \<open>result\<close>.
\<close>

theorem cache_fallback_after_success:
  assumes "network env (fetches w0) (requestUrl (OPEN_LIBRARY_URL env) options) = Inr r"
    and "ok r"
    and "json_search env (body r) = Inr data"
    and "browseBooks env options w0 = (Inr result, w0')"
    and "JSON_stringify env result \<noteq> []"
    and "JSON_parse env (JSON_stringify env result) = Inr result"
    and "storage w (''browse_'' @ requestUrl (OPEN_LIBRARY_URL env) options)
           = storage w0' (''browse_'' @ requestUrl (OPEN_LIBRARY_URL env) options)"
    and "fetch_or_parse_fails env w (requestUrl (OPEN_LIBRARY_URL env) options) e"
  shows "fst (browseBooks env options w) = Inr result"
proof -
  obtain result' w' where b: "browseBooks env options w0 = (Inr result', w')"
      and st: "storage w' = (storage w0)(''browse_'' @ requestUrl (OPEN_LIBRARY_URL env) options
                                      \<mapsto> JSON_stringify env result')"
    using browseBooks_ok[OF assms(1,2,3)] by blast
  with assms(4) have "result' = result" "w' = w0'" by simp_all
  with st assms(7) have "storage w (cacheKey (OPEN_LIBRARY_URL env) options)
                           = Some (JSON_stringify env result)"
    by (simp add: cacheKey_def)
  with browse_try_fails[OF assms(8)] assms(5,6) show ?thesis
    by (simp add: browseBooks_try_catch browse_catch_cases truthy_iff storage_emit
        storage_after_fetch)
qed

theorem cache_fallback_after_success_witness:
  "\<exists>result w1.
      browseBooks (example_env first_only dune) dune_options fresh_world = (Inr result, w1)
    \<and> fst (browseBooks (example_env first_only dune) dune_options w1) = Inr result"
proof -
  let ?env = "example_env first_only dune"
  let ?data = "\<lparr>docs = [dune, dune\<lparr>book_key := None\<rparr>, dune\<lparr>book_key := Some []\<rparr>], numFound = 3\<rparr>"
  have n: "network ?env (fetches fresh_world) (requestUrl (OPEN_LIBRARY_URL ?env) dune_options)
             = Inr \<lparr>status = 200, body = ''{}''\<rparr>"
    by (simp add: example_env_def first_only_def fresh_world_def)
  have o: "ok \<lparr>status = 200, body = ''{}''\<rparr>" by (simp add: ok_def)
  have j: "json_search ?env (body \<lparr>status = 200, body = ''{}''\<rparr>) = Inr ?data"
    by (simp add: example_env_def)
  obtain result w1 where b: "browseBooks ?env dune_options fresh_world = (Inr result, w1)"
      and bs: "books result = [dune]" and t: "total result = 3"
      and ev: "new_events fresh_world w1 =
             [Fetch (requestUrl (OPEN_LIBRARY_URL ?env) dune_options),
              SetItem (''browse_'' @ requestUrl (OPEN_LIBRARY_URL ?env) dune_options)
                (JSON_stringify ?env result)]"
    using browseBooks_ok[OF n o j] by (auto simp: dune_def)
  have res: "result = \<lparr>books = [dune], total = 3\<rparr>" using bs t by simp
  have "fetches w1 \<noteq> 0"
    using b n o j
    by (auto simp: browseBooks_try_catch browse_try_cases emit_def after_fetch_def)
  then have fail: "fetch_or_parse_fails ?env w1 (requestUrl (OPEN_LIBRARY_URL ?env) dune_options)
                     failed_to_fetch"
    by (simp add: fetch_or_parse_fails_def example_env_def first_only_def)
  have s: "JSON_stringify ?env result \<noteq> []" by (simp add: example_env_def)
  have p: "JSON_parse ?env (JSON_stringify ?env result) = Inr result"
    by (simp add: example_env_def res)
  from cache_fallback_after_success[OF n o j b s p refl fail] b show ?thesis by blast
qed

end
